theory Spec2Isabelle
  imports Main
begin

section \<open>The controller service of the EBS CSI driver\<close>

text \<open>
  A shallow embedding of \<^verbatim>\<open>pkg/driver/controller.go\<close>. Every RPC handler of the
  controller is a function from the driver, the request and the provider's state to a
  result and the provider's next state. A handler's Go result \<^verbatim>\<open>(resp, err)\<close> is a
  sum: \<open>Inl\<close> the error, \<open>Inr\<close> the response. The logging calls and the
  \<^verbatim>\<open>context.Context\<close> argument are left out; of a gRPC status the model keeps the
  code and drops the message text.
\<close>

subsection \<open>Errors\<close>

text \<open>The gRPC codes the controller returns.\<close>

datatype Code = InvalidArgument | NotFound | AlreadyExists | Internal | Unimplemented

text \<open>
  The errors of package \<^verbatim>\<open>cloud\<close>. The handlers compare an error with the sentinels
  \<^verbatim>\<open>cloud.ErrNotFound\<close>, \<^verbatim>\<open>cloud.ErrMultiDisks\<close>, \<^verbatim>\<open>cloud.ErrDiskExistsDiffSize\<close> and
  \<^verbatim>\<open>cloud.ErrAlreadyExists\<close>; every other error value is \<open>ErrOther\<close> with its text.
\<close>

datatype cloud_error =
  ErrNotFound | ErrMultiDisks | ErrDiskExistsDiffSize | ErrAlreadyExists | ErrOther string

text \<open>
  What a handler returns as its error: a gRPC status, an error of the provider handed
  through as it is (\<^verbatim>\<open>return nil, err\<close> in CreateSnapshot), the error of the timestamp
  conversion, or the run-time panic of a field access through a nil pointer.
\<close>

datatype rpc_error =
  Status Code | CloudError cloud_error | TimestampError | NilDereference

subsection \<open>Data of the provider interface\<close>

text \<open>\<^verbatim>\<open>cloud.Disk\<close>; the capacity is an \<^verbatim>\<open>int64\<close> number of GiB.\<close>

record Disk =
  VolumeID :: string
  CapacityGiB :: int
  AvailabilityZone :: string
  FsType :: string

text \<open>\<^verbatim>\<open>cloud.DiskOptions\<close>, with the fields CreateVolume fills in.\<close>

record DiskOptions =
  CapacityBytes :: int
  Tags :: "string \<rightharpoonup> string"
  VolumeType :: string
  IOPSPerGB :: int
  opt_AvailabilityZone :: string
  Encrypted :: bool
  KmsKeyID :: string
  SnapshotID :: string

text \<open>
  \<^verbatim>\<open>cloud.Snapshot\<close>. The creation time is a \<^verbatim>\<open>time.Time\<close>, of which the model keeps
  the Unix seconds and the nanosecond part.
\<close>

record Time =
  unix :: int
  nanosecond :: int

record Snapshot =
  snap_SnapshotID :: string
  SourceVolumeID :: string
  Size :: int
  CreationTime :: Time

record SnapshotOptions =
  snap_Tags :: "string \<rightharpoonup> string"

text \<open>
  The interface \<^verbatim>\<open>cloud.Cloud\<close>, restricted to the methods the modelled handlers call.
  A method takes its arguments and the provider's state \<open>'s\<close> and returns the Go result
  tuple and the next state. A pointer result is an option (\<open>None\<close> for nil) and an
  \<^verbatim>\<open>error\<close> result is an option (\<open>None\<close> for nil); both are kept, as Go returns both.
  The record also carries the two tag keys \<^verbatim>\<open>cloud.VolumeNameTagKey\<close> and
  \<^verbatim>\<open>cloud.SnapshotNameTagKey\<close>, constants of package \<^verbatim>\<open>cloud\<close> whose values are
  declared outside the modelled file.
\<close>

record 's Cloud =
  GetDiskByName :: "string \<Rightarrow> int \<Rightarrow> 's \<Rightarrow> (Disk option \<times> cloud_error option) \<times> 's"
  CreateDisk :: "string \<Rightarrow> DiskOptions \<Rightarrow> 's \<Rightarrow> (Disk option \<times> cloud_error option) \<times> 's"
  DeleteDisk :: "string \<Rightarrow> 's \<Rightarrow> (bool \<times> cloud_error option) \<times> 's"
  AttachDisk :: "string \<Rightarrow> string \<Rightarrow> 's \<Rightarrow> (string \<times> cloud_error option) \<times> 's"
  GetDiskByID :: "string \<Rightarrow> 's \<Rightarrow> (Disk option \<times> cloud_error option) \<times> 's"
  IsExistInstance :: "string \<Rightarrow> 's \<Rightarrow> bool \<times> 's"
  GetSnapshotByName :: "string \<Rightarrow> 's \<Rightarrow> (Snapshot option \<times> cloud_error option) \<times> 's"
  cloud_CreateSnapshot ::
    "string \<Rightarrow> SnapshotOptions \<Rightarrow> 's \<Rightarrow> (Snapshot option \<times> cloud_error option) \<times> 's"
  VolumeNameTagKey :: string
  SnapshotNameTagKey :: string

subsection \<open>Data of the CSI protocol\<close>

text \<open>The access modes of \<^verbatim>\<open>csi.VolumeCapability_AccessMode_Mode\<close>.\<close>

datatype Mode =
  UNKNOWN | SINGLE_NODE_WRITER | SINGLE_NODE_READER_ONLY | MULTI_NODE_READER_ONLY
  | MULTI_NODE_SINGLE_WRITER | MULTI_NODE_MULTI_WRITER

datatype AccessType = VolumeCapability_Block | VolumeCapability_Mount string "string list"

text \<open>
  A \<^verbatim>\<open>csi.VolumeCapability\<close>. Its \<^verbatim>\<open>AccessMode\<close> is a pointer to a message holding the
  mode; the getter \<^verbatim>\<open>GetMode\<close> answers \<^verbatim>\<open>UNKNOWN\<close> on a nil receiver. The elements of
  a request's capability list are themselves never nil, as the protocol decoder builds them.
\<close>

record VolumeCapability =
  AccessType :: "AccessType option"
  AccessMode :: "Mode option"

definition GetMode :: "Mode option \<Rightarrow> Mode" where
  "GetMode m = (case m of None \<Rightarrow> UNKNOWN | Some x \<Rightarrow> x)"

record CapacityRange =
  RequiredBytes :: int
  LimitBytes :: int

text \<open>
  The getters of a possibly nil \<^verbatim>\<open>*csi.CapacityRange\<close>: zero on a nil receiver. The two
  fields are \<^verbatim>\<open>int64\<close> in the source; the handlers only compare them, and a theorem that
  depends on their range states it.
\<close>

definition GetRequiredBytes :: "CapacityRange option \<Rightarrow> int" where
  "GetRequiredBytes r = (case r of None \<Rightarrow> 0 | Some c \<Rightarrow> RequiredBytes c)"

definition GetLimitBytes :: "CapacityRange option \<Rightarrow> int" where
  "GetLimitBytes r = (case r of None \<Rightarrow> 0 | Some c \<Rightarrow> LimitBytes c)"

text \<open>
  A \<^verbatim>\<open>csi.Topology\<close> is a map of segments. The lists of a requirement hold pointers, so
  an element may be nil; \<^verbatim>\<open>GetSegments\<close> on nil is the nil map, which has no key.
\<close>

record Topology =
  Segments :: "string \<rightharpoonup> string"

definition GetSegments :: "Topology option \<Rightarrow> (string \<rightharpoonup> string)" where
  "GetSegments t = (case t of None \<Rightarrow> Map.empty | Some x \<Rightarrow> Segments x)"

record TopologyRequirement =
  Requisite :: "Topology option list"
  Preferred :: "Topology option list"

text \<open>
  The content source of a volume: the oneof \<^verbatim>\<open>Type\<close> is unset (\<open>None\<close>), a snapshot
  source (whose inner pointer may be nil; otherwise it holds the snapshot ID) or another
  kind of source.
\<close>

datatype VolumeContentSource_Type =
  VolumeContentSource_Snapshot "string option" | VolumeContentSource_Other

record VolumeContentSource =
  source_Type :: "VolumeContentSource_Type option"

record CreateVolumeRequest =
  Name :: string
  CapacityRange :: "CapacityRange option"
  VolumeCapabilities :: "VolumeCapability list"
  Parameters :: "string \<rightharpoonup> string"
  VolumeContentSource :: "VolumeContentSource option"
  AccessibilityRequirements :: "TopologyRequirement option"

text \<open>\<^verbatim>\<open>csi.Volume\<close>, the payload of a CreateVolumeResponse.\<close>

record Volume =
  VolumeId :: string
  vol_CapacityBytes :: int
  VolumeContext :: "string \<rightharpoonup> string"
  AccessibleTopology :: "Topology list"

text \<open>
  The driver: its provider, the access modes it supports (\<^verbatim>\<open>d.volumeCaps\<close>) and two
  things the handlers take from outside the modelled file: the package constant
  \<^verbatim>\<open>topologyKey\<close> and the library function \<^verbatim>\<open>ptypes.TimestampProto\<close>, which converts a
  time to a protobuf timestamp or fails (\<open>None\<close>).
\<close>

record Timestamp =
  Seconds :: int
  Nanos :: int

record 's Driver =
  cloud :: "'s Cloud"
  volumeCaps :: "Mode list"
  topologyKey :: string
  TimestampProto :: "Time \<Rightarrow> Timestamp option"

subsection \<open>Constants and helpers of packages \<^verbatim>\<open>cloud\<close> and \<^verbatim>\<open>util\<close>\<close>

definition GiB :: int where
  "GiB = 2 ^ 30"

text \<open>
  Modelled from the spec: the constant \<^verbatim>\<open>cloud.DefaultVolumeSize\<close> is declared outside
  the modelled file; the specification gives the default size as 10 GiB.
\<close>

definition DefaultVolumeSize :: int where
  "DefaultVolumeSize = 10 * GiB"

text \<open>
  Modelled from the spec: the constant \<^verbatim>\<open>cloud.VolumeTypeIO1\<close> is declared outside the
  modelled file; the specification names the provisioned-IOPS class \<^verbatim>\<open>io1\<close>.
\<close>

definition VolumeTypeIO1 :: string where
  "VolumeTypeIO1 = ''io1''"

text \<open>
  Byte counts and GiB counts are \<^verbatim>\<open>int64\<close> in the source. The model carries them as
  integers and writes the wrap-around out: \<open>int64 k\<close> is the value a signed 64-bit
  variable holds after an arithmetic result \<open>k\<close> is stored in it.
\<close>

definition int64 :: "int \<Rightarrow> int" where
  "int64 k = (k + 2 ^ 63) mod 2 ^ 64 - 2 ^ 63"

text \<open>
  Modelled from the spec: \<^verbatim>\<open>util.RoundUpBytes\<close> is defined outside the modelled file.
  The specification says that byte counts are rounded up to GiB (1 GiB = 2^30 bytes),
  the result \<open>C\<close> for a byte count \<open>B\<close> being the multiple of 2^30 with
  \<open>C - 2^30 < B \<le> C\<close>. The result is an \<^verbatim>\<open>int64\<close>: a round-up beyond the largest
  64-bit value wraps around.
\<close>

definition RoundUpBytes :: "int \<Rightarrow> int" where
  "RoundUpBytes volumeSizeBytes = int64 (- ((- volumeSizeBytes) div GiB) * GiB)"

text \<open>
  Modelled from the spec: \<^verbatim>\<open>util.GiBToBytes\<close> is defined outside the modelled file; a
  GiB is 2^30 bytes, and the product is an \<^verbatim>\<open>int64\<close>.
\<close>

definition GiBToBytes :: "int \<Rightarrow> int" where
  "GiBToBytes volumeSizeGiB = int64 (volumeSizeGiB * GiB)"

text \<open>
  \<^verbatim>\<open>strconv.Atoi\<close> of the Go library: an optional sign, then one or more decimal
  digits, and a value that fits the \<^verbatim>\<open>int\<close> of a 64-bit platform; \<open>None\<close> stands for
  its error.
\<close>

definition is_digit :: "char \<Rightarrow> bool" where
  "is_digit c = (48 \<le> (of_char c :: nat) \<and> (of_char c :: nat) \<le> 57)"

definition digit_value :: "char \<Rightarrow> int" where
  "digit_value c = of_char c - 48"

definition Atoi :: "string \<Rightarrow> int option" where
  "Atoi s =
     (let neg = (case s of c # _ \<Rightarrow> c = CHR ''-'' | [] \<Rightarrow> False);
          ds = (case s of c # r \<Rightarrow> (if c = CHR ''-'' \<or> c = CHR ''+'' then r else s) | [] \<Rightarrow> s)
      in if ds = [] \<or> \<not> list_all is_digit ds then None
         else let n = foldl (\<lambda>a c. 10 * a + digit_value c) 0 ds;
                  v = (if neg then - n else n)
              in if - (2 ^ 63) \<le> v \<and> v < 2 ^ 63 then Some v else None)"

text \<open>Reading a Go \<^verbatim>\<open>map[string]string\<close>: the empty string for a missing key.\<close>

definition index_map :: "(string \<rightharpoonup> string) \<Rightarrow> string \<Rightarrow> string" where
  "index_map m k = (case m k of None \<Rightarrow> [] | Some v \<Rightarrow> v)"

subsection \<open>Capability check\<close>

text \<open>
  The closure \<^verbatim>\<open>hasSupport\<close> of \<^verbatim>\<open>isValidVolumeCapabilities\<close>: the loop over
  \<^verbatim>\<open>d.volumeCaps\<close> returns at the first supported mode equal to the capability's.
\<close>

fun hasSupport :: "Mode list \<Rightarrow> VolumeCapability \<Rightarrow> bool" where
  "hasSupport [] cap = False"
| "hasSupport (c # cs) cap = (if c = GetMode (AccessMode cap) then True else hasSupport cs cap)"

text \<open>The loop over the capabilities clears \<^verbatim>\<open>foundAll\<close> and goes on to the end.\<close>

definition isValidVolumeCapabilities :: "'s Driver \<Rightarrow> VolumeCapability list \<Rightarrow> bool" where
  "isValidVolumeCapabilities d volCaps =
     foldl (\<lambda>foundAll c. if \<not> hasSupport (volumeCaps d) c then False else foundAll) True volCaps"

subsection \<open>Choice of the availability zone\<close>

text \<open>
  One loop of \<^verbatim>\<open>pickAvailabilityZone\<close>: the value at the key of the first topology
  that has the key, \<open>None\<close> when the loop ends without a return.
\<close>

fun scanTopologies :: "string \<Rightarrow> Topology option list \<Rightarrow> string option" where
  "scanTopologies k [] = None"
| "scanTopologies k (topology # rest) =
     (case GetSegments topology k of Some zone \<Rightarrow> Some zone | None \<Rightarrow> scanTopologies k rest)"

text \<open>The package constant \<^verbatim>\<open>topologyKey\<close> is the first argument.\<close>

definition pickAvailabilityZone :: "string \<Rightarrow> TopologyRequirement option \<Rightarrow> string" where
  "pickAvailabilityZone key requirement =
     (case requirement of
        None \<Rightarrow> []
      | Some r \<Rightarrow>
          (case scanTopologies key (Preferred r) of
             Some zone \<Rightarrow> zone
           | None \<Rightarrow>
               (case scanTopologies key (Requisite r) of
                  Some zone \<Rightarrow> zone
                | None \<Rightarrow> [])))"

subsection \<open>CreateVolume\<close>

definition newCreateVolumeResponse :: "string \<Rightarrow> Disk \<Rightarrow> Volume" where
  "newCreateVolumeResponse key disk =
     \<lparr> VolumeId = VolumeID disk,
       vol_CapacityBytes = GiBToBytes (CapacityGiB disk),
       VolumeContext = [''fsType'' \<mapsto> FsType disk],
       AccessibleTopology = [\<lparr> Segments = [key \<mapsto> AvailabilityZone disk] \<rparr>] \<rparr>"

text \<open>The local \<^verbatim>\<open>volSize\<close>: the default, replaced when the request has a capacity range.\<close>

definition volSize :: "CreateVolumeRequest \<Rightarrow> int" where
  "volSize req =
     (if CapacityRange req \<noteq> None then GetRequiredBytes (CapacityRange req)
      else DefaultVolumeSize)"

definition volSizeBytes :: "CreateVolumeRequest \<Rightarrow> int" where
  "volSizeBytes req = RoundUpBytes (volSize req)"

text \<open>
  The second half of CreateVolume (\<^verbatim>\<open>// create a new volume\<close>), entered when the lookup
  by name found no disk. The state is the one the lookup left.
\<close>

definition createNewVolume ::
  "'s Driver \<Rightarrow> CreateVolumeRequest \<Rightarrow> 's \<Rightarrow> (rpc_error + Volume) \<times> 's" where
  "createNewVolume d req s =
     (let volName = Name req;
          zone = pickAvailabilityZone (topologyKey d) (AccessibilityRequirements req);
          volumeParams = Parameters req;
          volumeType = index_map volumeParams ''type'';
          parsed = (if volumeType = VolumeTypeIO1
                    then Atoi (index_map volumeParams ''iopsPerGB'') else Some 0)
      in case parsed of
           None \<Rightarrow> (Inl (Status InvalidArgument), s)
         | Some iopsPerGB \<Rightarrow>
             (let isEncrypted = (index_map volumeParams ''encrypted'' = ''true'');
                  kmsKeyId = (if isEncrypted then index_map volumeParams ''kmsKeyId'' else []);
                  opts = \<lparr> CapacityBytes = volSizeBytes req,
                           Tags = [VolumeNameTagKey (cloud d) \<mapsto> volName],
                           VolumeType = volumeType,
                           IOPSPerGB = iopsPerGB,
                           opt_AvailabilityZone = zone,
                           Encrypted = isEncrypted,
                           KmsKeyID = kmsKeyId,
                           SnapshotID = [] \<rparr>;
                  sourced =
                    (case VolumeContentSource req of
                       None \<Rightarrow> Some opts
                     | Some volumeSource \<Rightarrow>
                         (case source_Type volumeSource of
                            Some (VolumeContentSource_Snapshot (Some snapshotId)) \<Rightarrow>
                              Some (opts \<lparr> SnapshotID := snapshotId \<rparr>)
                          | _ \<Rightarrow> None))
              in case sourced of
                   None \<Rightarrow> (Inl (Status InvalidArgument), s)
                 | Some opts' \<Rightarrow>
                     (case CreateDisk (cloud d) volName opts' s of
                        ((_, Some err), s') \<Rightarrow> (Inl (Status Internal), s')
                      | ((None, None), s') \<Rightarrow> (Inl NilDereference, s')
                      | ((Some disk, None), s') \<Rightarrow>
                          (Inr (newCreateVolumeResponse (topologyKey d)
                                  (disk \<lparr> FsType := index_map volumeParams ''fsType'' \<rparr>)),
                           s'))))"

text \<open>
  CreateVolume. The \<^verbatim>\<open>switch\<close> on the lookup's error returns for every error but
  \<^verbatim>\<open>cloud.ErrNotFound\<close>; after it, a disk that is not nil is answered as it is.
\<close>

definition CreateVolume ::
  "'s Driver \<Rightarrow> CreateVolumeRequest \<Rightarrow> 's \<Rightarrow> (rpc_error + Volume) \<times> 's" where
  "CreateVolume d req s =
     (let volName = Name req in
      if length volName = 0 then (Inl (Status InvalidArgument), s)
      else
        let maxVolSize = GetLimitBytes (CapacityRange req) in
        if maxVolSize > 0 \<and> maxVolSize < volSizeBytes req
        then (Inl (Status InvalidArgument), s)
        else
          let volCaps = VolumeCapabilities req in
          if length volCaps = 0 then (Inl (Status InvalidArgument), s)
          else if \<not> isValidVolumeCapabilities d volCaps then (Inl (Status InvalidArgument), s)
          else
            (case GetDiskByName (cloud d) volName (volSizeBytes req) s of
               ((_, Some ErrMultiDisks), s') \<Rightarrow> (Inl (Status Internal), s')
             | ((_, Some ErrDiskExistsDiffSize), s') \<Rightarrow> (Inl (Status AlreadyExists), s')
             | ((_, Some ErrAlreadyExists), s') \<Rightarrow> (Inl (Status Internal), s')
             | ((_, Some (ErrOther msg)), s') \<Rightarrow> (Inl (Status Internal), s')
             | ((Some disk, _), s') \<Rightarrow>
                 (Inr (newCreateVolumeResponse (topologyKey d) disk), s')
             | ((None, _), s') \<Rightarrow> createNewVolume d req s'))"

subsection \<open>DeleteVolume\<close>

record DeleteVolumeRequest =
  del_VolumeId :: string

text \<open>The empty message \<^verbatim>\<open>csi.DeleteVolumeResponse\<close>.\<close>

datatype DeleteVolumeResponse = DeleteVolumeResponse

definition DeleteVolume ::
  "'s Driver \<Rightarrow> DeleteVolumeRequest \<Rightarrow> 's \<Rightarrow> (rpc_error + DeleteVolumeResponse) \<times> 's" where
  "DeleteVolume d req s =
     (let volumeID = del_VolumeId req in
      if length volumeID = 0 then (Inl (Status InvalidArgument), s)
      else
        (case DeleteDisk (cloud d) volumeID s of
           ((_, Some err), s') \<Rightarrow>
             (if err = ErrNotFound then (Inr DeleteVolumeResponse, s')
              else (Inl (Status Internal), s'))
         | ((_, None), s') \<Rightarrow> (Inr DeleteVolumeResponse, s')))"

subsection \<open>ControllerPublishVolume\<close>

record ControllerPublishVolumeRequest =
  pub_VolumeId :: string
  pub_NodeId :: string
  pub_VolumeCapability :: "VolumeCapability option"

record ControllerPublishVolumeResponse =
  PublishContext :: "string \<rightharpoonup> string"

definition ControllerPublishVolume ::
  "'s Driver \<Rightarrow> ControllerPublishVolumeRequest \<Rightarrow> 's
     \<Rightarrow> (rpc_error + ControllerPublishVolumeResponse) \<times> 's" where
  "ControllerPublishVolume d req s =
     (let volumeID = pub_VolumeId req in
      if length volumeID = 0 then (Inl (Status InvalidArgument), s)
      else
        let nodeID = pub_NodeId req in
        if length nodeID = 0 then (Inl (Status InvalidArgument), s)
        else
          (case pub_VolumeCapability req of
             None \<Rightarrow> (Inl (Status InvalidArgument), s)
           | Some volCap \<Rightarrow>
               (let caps = [volCap] in
                if \<not> isValidVolumeCapabilities d caps then (Inl (Status InvalidArgument), s)
                else
                  (case IsExistInstance (cloud d) nodeID s of
                     (False, s1) \<Rightarrow> (Inl (Status NotFound), s1)
                   | (True, s1) \<Rightarrow>
                       (case GetDiskByID (cloud d) volumeID s1 of
                          ((_, Some err), s2) \<Rightarrow>
                            (if err = ErrNotFound then (Inl (Status NotFound), s2)
                             else (Inl (Status Internal), s2))
                        | ((_, None), s2) \<Rightarrow>
                            (case AttachDisk (cloud d) volumeID nodeID s2 of
                               ((_, Some err), s3) \<Rightarrow>
                                 (if err = ErrAlreadyExists
                                  then (Inl (Status AlreadyExists), s3)
                                  else (Inl (Status Internal), s3))
                             | ((devicePath, None), s3) \<Rightarrow>
                                 (Inr \<lparr> PublishContext = [''devicePath'' \<mapsto> devicePath] \<rparr>,
                                  s3)))))))"

subsection \<open>ValidateVolumeCapabilities\<close>

record ValidateVolumeCapabilitiesRequest =
  val_VolumeId :: string
  val_VolumeCapabilities :: "VolumeCapability list"

text \<open>
  The response: \<^verbatim>\<open>Confirmed\<close> is a pointer, nil (\<open>None\<close>) when nothing is confirmed;
  otherwise it holds the confirmed capabilities.
\<close>

record ValidateVolumeCapabilitiesResponse =
  Confirmed :: "VolumeCapability list option"

definition ValidateVolumeCapabilities ::
  "'s Driver \<Rightarrow> ValidateVolumeCapabilitiesRequest \<Rightarrow> 's
     \<Rightarrow> (rpc_error + ValidateVolumeCapabilitiesResponse) \<times> 's" where
  "ValidateVolumeCapabilities d req s =
     (let volumeID = val_VolumeId req in
      if length volumeID = 0 then (Inl (Status InvalidArgument), s)
      else
        let volCaps = val_VolumeCapabilities req in
        if length volCaps = 0 then (Inl (Status InvalidArgument), s)
        else
          (case GetDiskByID (cloud d) volumeID s of
             ((_, Some err), s') \<Rightarrow>
               (if err = ErrNotFound then (Inl (Status NotFound), s')
                else (Inl (Status Internal), s'))
           | ((_, None), s') \<Rightarrow>
               (Inr \<lparr> Confirmed =
                        (if isValidVolumeCapabilities d volCaps then Some volCaps else None) \<rparr>,
                s')))"

subsection \<open>CreateSnapshot\<close>

record CreateSnapshotRequest =
  snap_Name :: string
  SourceVolumeId :: string

text \<open>\<^verbatim>\<open>csi.Snapshot\<close>, the payload of a CreateSnapshotResponse.\<close>

record csi_Snapshot =
  SnapshotId :: string
  csi_SourceVolumeId :: string
  SizeBytes :: int
  csi_CreationTime :: Timestamp
  ReadyToUse :: bool

definition newCreateSnapshotResponse :: "'s Driver \<Rightarrow> Snapshot \<Rightarrow> rpc_error + csi_Snapshot" where
  "newCreateSnapshotResponse d snapshot =
     (case TimestampProto d (CreationTime snapshot) of
        None \<Rightarrow> Inl TimestampError
      | Some ts \<Rightarrow>
          Inr \<lparr> SnapshotId = snap_SnapshotID snapshot,
                csi_SourceVolumeId = SourceVolumeID snapshot,
                SizeBytes = Size snapshot,
                csi_CreationTime = ts,
                ReadyToUse = True \<rparr>)"

text \<open>
  CreateSnapshot. An error of the lookup other than \<^verbatim>\<open>cloud.ErrNotFound\<close> is returned
  as it is; after that a snapshot that is not nil decides the call.
\<close>

definition CreateSnapshot ::
  "'s Driver \<Rightarrow> CreateSnapshotRequest \<Rightarrow> 's \<Rightarrow> (rpc_error + csi_Snapshot) \<times> 's" where
  "CreateSnapshot d req s =
     (let snapshotName = snap_Name req in
      if length snapshotName = 0 then (Inl (Status InvalidArgument), s)
      else
        let volumeID = SourceVolumeId req in
        if length volumeID = 0 then (Inl (Status InvalidArgument), s)
        else
          (case GetSnapshotByName (cloud d) snapshotName s of
             ((found, err), s1) \<Rightarrow>
               (case (if err = Some ErrNotFound then None else err) of
                  Some e \<Rightarrow> (Inl (CloudError e), s1)
                | None \<Rightarrow>
                    (case found of
                       Some snapshot \<Rightarrow>
                         (if SourceVolumeID snapshot \<noteq> volumeID
                          then (Inl (Status AlreadyExists), s1)
                          else (newCreateSnapshotResponse d snapshot, s1))
                     | None \<Rightarrow>
                         (let opts = \<lparr> snap_Tags =
                                        [SnapshotNameTagKey (cloud d) \<mapsto> snapshotName] \<rparr>
                          in case cloud_CreateSnapshot (cloud d) volumeID opts s1 of
                               ((_, Some e), s2) \<Rightarrow> (Inl (Status Internal), s2)
                             | ((None, None), s2) \<Rightarrow> (Inl NilDereference, s2)
                             | ((Some snapshot, None), s2) \<Rightarrow>
                                 (newCreateSnapshotResponse d snapshot, s2))))))"

section \<open>A provider\<close>

text \<open>
  The implementations of \<^verbatim>\<open>cloud.Cloud\<close> are outside the modelled file. This section
  models one from the specification's description of the cloud provider, as a state of
  named disks, named snapshots, instances and attachments. Real time is not modelled:
  every wait of the provider completes, so no operation times out. A disk or snapshot
  handed to the caller is a copy: a change the caller makes to it does not reach the state.
\<close>

record ProviderState =
  disks :: "(string \<times> Disk) list"
  snapshots :: "(string \<times> Snapshot) list"
  instances :: "string list"
  attachments :: "(string \<times> string \<times> string) list"
  next_id :: nat
  now :: Time
  region_zone :: string

text \<open>The decimal digits of a number, for the identifiers the provider hands out.\<close>

fun digits :: "nat \<Rightarrow> string" where
  "digits n =
     (if n < 10 then [''0123456789'' ! n]
      else digits (n div 10) @ [''0123456789'' ! (n mod 10)])"

declare digits.simps [simp del]

definition named :: "string \<Rightarrow> (string \<times> 'a) list \<Rightarrow> (string \<times> 'a) list" where
  "named name xs = filter (\<lambda>e. fst e = name) xs"

text \<open>
  Modelled from the spec: \<^verbatim>\<open>GetDiskByName(name, requiredBytes)\<close> resolves by name tag.
  Zero matches: \<^verbatim>\<open>ErrNotFound\<close>. More than one: \<^verbatim>\<open>ErrMultiDisks\<close>. Exactly one whose
  capacity in bytes does not match \<^verbatim>\<open>requiredBytes\<close>: \<^verbatim>\<open>ErrDiskExistsDiffSize\<close>.
\<close>

definition provider_GetDiskByName ::
  "string \<Rightarrow> int \<Rightarrow> ProviderState \<Rightarrow> (Disk option \<times> cloud_error option) \<times> ProviderState" where
  "provider_GetDiskByName name requiredBytes st =
     (case named name (disks st) of
        [] \<Rightarrow> ((None, Some ErrNotFound), st)
      | [e] \<Rightarrow>
          (if GiBToBytes (CapacityGiB (snd e)) \<noteq> requiredBytes
           then ((None, Some ErrDiskExistsDiffSize), st)
           else ((Some (snd e), None), st))
      | _ \<Rightarrow> ((None, Some ErrMultiDisks), st))"

text \<open>
  Modelled from the spec: \<^verbatim>\<open>CreateDisk(name, opts)\<close> submits a create with \<^verbatim>\<open>opts\<close> and
  a tag carrying \<^verbatim>\<open>name\<close>, and fails with \<^verbatim>\<open>ErrAlreadyExists\<close> if a different-sized disk
  carries the name. The call is a provisioning call and not idempotent (the specification
  has the controller enforce idempotence, by its lookup of the name): a call that does
  not fail makes a new disk. The capacity of a disk is a whole number of GiB; the
  specification has the controller round the requested bytes up to GiB before it asks, and
  the provider takes the whole GiB of the bytes it is handed, without rounding again.
  An empty availability zone lets the provider pick one.
\<close>

definition provider_CreateDisk ::
  "string \<Rightarrow> DiskOptions \<Rightarrow> ProviderState
     \<Rightarrow> (Disk option \<times> cloud_error option) \<times> ProviderState" where
  "provider_CreateDisk name opts st =
     (let carrying = named name (disks st)
      in if list_ex (\<lambda>e. GiBToBytes (CapacityGiB (snd e)) \<noteq> CapacityBytes opts) carrying
         then ((None, Some ErrAlreadyExists), st)
         else
           (let disk = \<lparr> VolumeID = ''vol-'' @ digits (next_id st),
                          CapacityGiB = CapacityBytes opts div GiB,
                          AvailabilityZone =
                            (if opt_AvailabilityZone opts = [] then region_zone st
                             else opt_AvailabilityZone opts),
                          FsType = [] \<rparr>
            in ((Some disk, None),
                st \<lparr> disks := disks st @ [(name, disk)], next_id := Suc (next_id st) \<rparr>)))"

text \<open>
  Modelled from the spec: \<^verbatim>\<open>DeleteDisk(volumeID)\<close> returns \<^verbatim>\<open>ErrNotFound\<close> if the disk
  does not exist at call time.
\<close>

definition provider_DeleteDisk ::
  "string \<Rightarrow> ProviderState \<Rightarrow> (bool \<times> cloud_error option) \<times> ProviderState" where
  "provider_DeleteDisk volumeID st =
     (if list_ex (\<lambda>e. VolumeID (snd e) = volumeID) (disks st)
      then ((True, None), st \<lparr> disks := filter (\<lambda>e. VolumeID (snd e) \<noteq> volumeID) (disks st) \<rparr>)
      else ((False, Some ErrNotFound), st))"

text \<open>
  Modelled from the spec: \<^verbatim>\<open>GetDiskByID(volumeID)\<close> returns \<^verbatim>\<open>ErrNotFound\<close> if the
  disk is absent.
\<close>

definition provider_GetDiskByID ::
  "string \<Rightarrow> ProviderState \<Rightarrow> (Disk option \<times> cloud_error option) \<times> ProviderState" where
  "provider_GetDiskByID volumeID st =
     (case find (\<lambda>e. VolumeID (snd e) = volumeID) (disks st) of
        None \<Rightarrow> ((None, Some ErrNotFound), st)
      | Some e \<Rightarrow> ((Some (snd e), None), st))"

text \<open>Modelled from the spec: \<^verbatim>\<open>IsExistInstance(instanceID)\<close>.\<close>

definition provider_IsExistInstance :: "string \<Rightarrow> ProviderState \<Rightarrow> bool \<times> ProviderState" where
  "provider_IsExistInstance instanceID st = (instanceID \<in> set (instances st), st)"

text \<open>
  Modelled from the spec: the device paths \<^verbatim>\<open>/dev/xvdba\<close> to \<^verbatim>\<open>/dev/xvdcz\<close>, in the
  order of the alphabet.
\<close>

definition devicePaths :: "string list" where
  "devicePaths =
     concat (map (\<lambda>a. map (\<lambda>b. ''/dev/xvd'' @ [a, b]) ''abcdefghijklmnopqrstuvwxyz'') ''bc'')"

text \<open>
  Modelled from the spec: \<^verbatim>\<open>AttachDisk(volumeID, instanceID)\<close>. A disk already attached
  to this instance gives the existing device path; one attached to a different instance
  gives \<^verbatim>\<open>ErrAlreadyExists\<close>; otherwise the provider picks the next device path not in
  use on the instance.
\<close>

definition provider_AttachDisk ::
  "string \<Rightarrow> string \<Rightarrow> ProviderState \<Rightarrow> (string \<times> cloud_error option) \<times> ProviderState" where
  "provider_AttachDisk volumeID instanceID st =
     (case find (\<lambda>a. fst a = volumeID) (attachments st) of
        Some a \<Rightarrow>
          (if fst (snd a) = instanceID then ((snd (snd a), None), st)
           else (([], Some ErrAlreadyExists), st))
      | None \<Rightarrow>
          (let inUse = map (\<lambda>a. snd (snd a))
                         (filter (\<lambda>a. fst (snd a) = instanceID) (attachments st))
           in case find (\<lambda>p. p \<notin> set inUse) devicePaths of
                None \<Rightarrow> (([], Some (ErrOther ''no device path left'')), st)
              | Some p \<Rightarrow>
                  ((p, None),
                   st \<lparr> attachments := attachments st @ [(volumeID, instanceID, p)] \<rparr>)))"

text \<open>Modelled from the spec: \<^verbatim>\<open>GetSnapshotByName(name)\<close> resolves by name tag.\<close>

definition provider_GetSnapshotByName ::
  "string \<Rightarrow> ProviderState \<Rightarrow> (Snapshot option \<times> cloud_error option) \<times> ProviderState" where
  "provider_GetSnapshotByName name st =
     (case named name (snapshots st) of
        [] \<Rightarrow> ((None, Some ErrNotFound), st)
      | e # _ \<Rightarrow> ((Some (snd e), None), st))"

text \<open>
  Modelled from the spec: \<^verbatim>\<open>CreateSnapshot(volumeID, opts)\<close> creates a snapshot of the
  volume, tagged with the name the options carry under the tag key \<open>key\<close>.
\<close>

definition provider_CreateSnapshot ::
  "string \<Rightarrow> string \<Rightarrow> SnapshotOptions \<Rightarrow> ProviderState
     \<Rightarrow> (Snapshot option \<times> cloud_error option) \<times> ProviderState" where
  "provider_CreateSnapshot key volumeID opts st =
     (let snapshot = \<lparr> snap_SnapshotID = ''snap-'' @ digits (next_id st),
                       SourceVolumeID = volumeID,
                       Size = (case find (\<lambda>e. VolumeID (snd e) = volumeID) (disks st) of
                                 None \<Rightarrow> 0
                               | Some e \<Rightarrow> GiBToBytes (CapacityGiB (snd e))),
                       CreationTime = now st \<rparr>
      in ((Some snapshot, None),
          st \<lparr> snapshots := snapshots st @ [(index_map (snap_Tags opts) key, snapshot)],
               next_id := Suc (next_id st) \<rparr>))"

text \<open>The provider as a value of the interface; the tag keys are parameters.\<close>

definition provider :: "string \<Rightarrow> string \<Rightarrow> ProviderState Cloud" where
  "provider volumeKey snapshotKey =
     \<lparr> GetDiskByName = provider_GetDiskByName,
       CreateDisk = provider_CreateDisk,
       DeleteDisk = provider_DeleteDisk,
       AttachDisk = provider_AttachDisk,
       GetDiskByID = provider_GetDiskByID,
       IsExistInstance = provider_IsExistInstance,
       GetSnapshotByName = provider_GetSnapshotByName,
       cloud_CreateSnapshot = provider_CreateSnapshot snapshotKey,
       VolumeNameTagKey = volumeKey,
       SnapshotNameTagKey = snapshotKey \<rparr>"

section \<open>Sample values\<close>

text \<open>
  Concrete drivers, provider states and requests, on which the theorems below are
  instantiated. The driver supports the single-node-writer mode; its tag keys and its
  topology key are sample strings, and its conversion of a time to a timestamp keeps the
  seconds and the nanoseconds.
\<close>

definition ebsDriver :: "ProviderState Driver" where
  "ebsDriver =
     \<lparr> cloud = provider ''volume-name'' ''snapshot-name'',
       volumeCaps = [SINGLE_NODE_WRITER],
       topologyKey = ''zone'',
       TimestampProto = (\<lambda>t. Some \<lparr> Seconds = unix t, Nanos = nanosecond t \<rparr>) \<rparr>"

definition emptyProvider :: ProviderState where
  "emptyProvider =
     \<lparr> disks = [], snapshots = [], instances = [''i-0''], attachments = [],
       next_id = 0, now = \<lparr> unix = 1500000000, nanosecond = 0 \<rparr>,
       region_zone = ''us-west-2a'' \<rparr>"

text \<open>Capabilities with a supported and with an unsupported access mode.\<close>

definition writerCap :: VolumeCapability where
  "writerCap = \<lparr> AccessType = Some (VolumeCapability_Mount [] []),
                 AccessMode = Some SINGLE_NODE_WRITER \<rparr>"

definition readerCap :: VolumeCapability where
  "readerCap = \<lparr> AccessType = Some (VolumeCapability_Mount [] []),
                 AccessMode = Some MULTI_NODE_READER_ONLY \<rparr>"

text \<open>
  A CreateVolume request for a name and a number of bytes, with the supported capability
  and nothing else.
\<close>

definition sizedRequest :: "string \<Rightarrow> int \<Rightarrow> CreateVolumeRequest" where
  "sizedRequest name bytes =
     \<lparr> Name = name,
       CapacityRange = Some \<lparr> RequiredBytes = bytes, LimitBytes = 0 \<rparr>,
       VolumeCapabilities = [writerCap],
       Parameters = Map.empty,
       VolumeContentSource = None,
       AccessibilityRequirements = None \<rparr>"

text \<open>
  A provider state with two disks, a snapshot, two instances and one attachment.
\<close>

definition sampleProvider :: ProviderState where
  "sampleProvider =
     \<lparr> disks = [(''test-vol'', \<lparr> VolumeID = ''vol-0'', CapacityGiB = 1,
                                 AvailabilityZone = ''us-west-2a'', FsType = [] \<rparr>),
                (''other-vol'', \<lparr> VolumeID = ''vol-1'', CapacityGiB = 5,
                                  AvailabilityZone = ''us-west-2a'', FsType = [] \<rparr>)],
       snapshots = [(''s1'', \<lparr> snap_SnapshotID = ''snap-2'', SourceVolumeID = ''vol-a'',
                              Size = 1073741824,
                              CreationTime = \<lparr> unix = 1500000000, nanosecond = 0 \<rparr> \<rparr>)],
       instances = [''i-0'', ''i-1''],
       attachments = [(''vol-1'', ''i-1'', ''/dev/xvdba'')],
       next_id = 3,
       now = \<lparr> unix = 1500000000, nanosecond = 0 \<rparr>,
       region_zone = ''us-west-2a'' \<rparr>"

text \<open>
  The first disk the provider creates from its empty state, and the state after it has
  created that disk under a name.
\<close>

definition firstVolume :: "int \<Rightarrow> Disk" where
  "firstVolume gib = \<lparr> VolumeID = ''vol-0'', CapacityGiB = gib,
                        AvailabilityZone = ''us-west-2a'', FsType = [] \<rparr>"

definition afterCreate :: "string \<Rightarrow> int \<Rightarrow> ProviderState" where
  "afterCreate name gib =
     emptyProvider \<lparr> disks := [(name, firstVolume gib)], next_id := 1 \<rparr>"

text \<open>A driver whose provider refuses to delete and to attach, with an error of its own.\<close>

definition throttledDriver :: "ProviderState Driver" where
  "throttledDriver =
     ebsDriver \<lparr> cloud := (cloud ebsDriver)
       \<lparr> DeleteDisk := (\<lambda>volumeID st. ((False, Some (ErrOther ''throttled'')), st)),
         AttachDisk := (\<lambda>volumeID instanceID st. (([], Some (ErrOther ''throttled'')), st)) \<rparr> \<rparr>"

section \<open>The argument checks of CreateVolume\<close>

text \<open>
  The four checks CreateVolume makes before it asks the provider: the name is not empty,
  the rounded size does not exceed a positive limit, and the capabilities are not empty
  and are all supported.
\<close>

definition argumentsAccepted :: "'s Driver \<Rightarrow> CreateVolumeRequest \<Rightarrow> bool" where
  "argumentsAccepted d req \<longleftrightarrow>
     Name req \<noteq> [] \<and>
     \<not> (GetLimitBytes (CapacityRange req) > 0 \<and>
        GetLimitBytes (CapacityRange req) < volSizeBytes req) \<and>
     VolumeCapabilities req \<noteq> [] \<and>
     isValidVolumeCapabilities d (VolumeCapabilities req)"

section \<open>Auxiliary facts\<close>

subsection \<open>Capabilities and topologies\<close>

lemma hasSupport_iff: "hasSupport ms cap \<longleftrightarrow> GetMode (AccessMode cap) \<in> set ms"
  by (induction ms) auto

lemma foldl_foundAll:
  "foldl (\<lambda>foundAll c. if \<not> P c then False else foundAll) b xs \<longleftrightarrow> b \<and> (\<forall>c \<in> set xs. P c)"
  by (induction xs arbitrary: b) auto

lemma isValidVolumeCapabilities_iff:
  "isValidVolumeCapabilities d volCaps \<longleftrightarrow>
     (\<forall>c \<in> set volCaps. GetMode (AccessMode c) \<in> set (volumeCaps d))"
  unfolding isValidVolumeCapabilities_def foldl_foundAll by (simp add: hasSupport_iff)

lemma scanTopologies_None:
  "scanTopologies k ts = None \<longleftrightarrow> (\<forall>t \<in> set ts. GetSegments t k = None)"
  by (induction ts) (auto split: option.splits)

lemma scanTopologies_first:
  "\<forall>p \<in> set ps. GetSegments p k = None \<Longrightarrow> GetSegments t k = Some zone
     \<Longrightarrow> scanTopologies k (ps @ t # qs) = Some zone"
  by (induction ps) auto

subsection \<open>Rounding\<close>

lemma GiB_pos: "0 < GiB"
  by (simp add: GiB_def)

lemma int64_range: "- (2 ^ 63) \<le> int64 k \<and> int64 k < 2 ^ 63"
proof -
  have "0 \<le> (k + 2 ^ 63) mod (2 ^ 64 :: int)" "(k + 2 ^ 63) mod (2 ^ 64 :: int) < 2 ^ 64"
    by simp_all
  then show ?thesis
    by (simp add: int64_def)
qed

lemma int64_id: "- (2 ^ 63) \<le> k \<Longrightarrow> k < 2 ^ 63 \<Longrightarrow> int64 k = k"
  by (simp add: int64_def)

lemma int64_mod_GiB: "int64 k mod GiB = k mod GiB"
proof -
  have "int64 k = k - 2 ^ 64 * ((k + 2 ^ 63) div 2 ^ 64)"
    by (simp add: int64_def minus_mult_div_eq_mod [symmetric])
  also have "\<dots> = k - GiB * (2 ^ 34 * ((k + 2 ^ 63) div 2 ^ 64))"
    by (simp add: GiB_def)
  finally show ?thesis
    by (metis diff_conv_add_uminus mod_mult_self2 mult_minus_right)
qed

lemma whole_GiB: "v mod GiB = 0 \<Longrightarrow> v div GiB * GiB = v"
  by (metis add.right_neutral div_mult_mod_eq)

lemma RoundUpBytes_multiple: "RoundUpBytes b mod GiB = 0"
  by (simp add: RoundUpBytes_def int64_mod_GiB)

lemma RoundUpBytes_range: "- (2 ^ 63) \<le> RoundUpBytes b \<and> RoundUpBytes b < 2 ^ 63"
  unfolding RoundUpBytes_def by (rule int64_range)

lemma round_up_ge: "b \<le> - ((- b) div GiB) * GiB"
proof -
  have "(- b) div GiB * GiB \<le> - b"
    using GiB_pos by (metis div_mult_mod_eq pos_mod_sign le_add_same_cancel1)
  then show ?thesis by simp
qed

lemma round_up_less: "- ((- b) div GiB) * GiB - GiB < b"
proof -
  have "(- b) mod GiB < GiB"
    using GiB_pos by simp
  moreover have "- b = (- b) div GiB * GiB + (- b) mod GiB"
    by simp
  ultimately have "- b < (- b) div GiB * GiB + GiB"
    by linarith
  then show ?thesis by simp
qed

text \<open>Where the round-up fits 64 bits, RoundUpBytes is the round-up.\<close>

lemma RoundUpBytes_fits:
  assumes "- (2 ^ 63) \<le> b" and "b \<le> 2 ^ 63 - 2 ^ 30"
  shows "RoundUpBytes b = - ((- b) div GiB) * GiB"
proof -
  let ?c = "- ((- b) div GiB) * GiB"
  have "b \<le> ?c" by (rule round_up_ge)
  moreover have "?c \<le> 2 ^ 63 - 2 ^ 30"
  proof -
    have "- (2 ^ 33 - 1) \<le> (- b) div GiB"
    proof -
      have "- (2 ^ 33 - 1) * GiB \<le> - b"
        using assms(2) by (simp add: GiB_def)
      then have "(- (2 ^ 33 - 1) * GiB) div GiB \<le> (- b) div GiB"
        using GiB_pos by (intro zdiv_mono1) simp_all
      moreover have "(- (2 ^ 33 - 1) * GiB) div GiB = - (2 ^ 33 - 1)"
        using GiB_pos by (intro nonzero_mult_div_cancel_right) simp
      ultimately show ?thesis
        by simp
    qed
    then have "- ((- b) div GiB) \<le> 2 ^ 33 - 1"
      by simp
    then have "- ((- b) div GiB) * GiB \<le> (2 ^ 33 - 1) * GiB"
      using GiB_pos by (intro mult_right_mono) simp_all
    then show ?thesis
      by (simp add: GiB_def)
  qed
  ultimately have "- (2 ^ 63) \<le> ?c" "?c < 2 ^ 63"
    using assms(1) by simp_all
  then show ?thesis
    by (simp add: RoundUpBytes_def int64_id)
qed

lemma RoundUpBytes_ge:
  "- (2 ^ 63) \<le> b \<Longrightarrow> b \<le> 2 ^ 63 - 2 ^ 30 \<Longrightarrow> b \<le> RoundUpBytes b"
  using round_up_ge [of b] by (simp add: RoundUpBytes_fits)

lemma RoundUpBytes_less:
  "- (2 ^ 63) \<le> b \<Longrightarrow> b \<le> 2 ^ 63 - 2 ^ 30 \<Longrightarrow> RoundUpBytes b - GiB < b"
  using round_up_less [of b] by (simp add: RoundUpBytes_fits)


lemma GiBToBytes_whole:
  assumes "v mod GiB = 0" and "- (2 ^ 63) \<le> v" and "v < 2 ^ 63"
  shows "GiBToBytes (v div GiB) = v"
  using assms by (simp add: GiBToBytes_def whole_GiB int64_id)

lemma volSizeBytes_whole: "GiBToBytes (volSizeBytes req div GiB) = volSizeBytes req"
  unfolding volSizeBytes_def
  using RoundUpBytes_multiple RoundUpBytes_range by (intro GiBToBytes_whole) simp_all


lemma volSizeBytes_range:
  "CapacityRange req = Some capRange \<Longrightarrow> volSizeBytes req = RoundUpBytes (RequiredBytes capRange)"
  by (simp add: volSizeBytes_def volSize_def GetRequiredBytes_def)

lemma volSizeBytes_Parameters:
  "volSizeBytes (req \<lparr> Parameters := params \<rparr>) = volSizeBytes req"
  by (simp add: volSizeBytes_def volSize_def)

lemma argumentsAccepted_Parameters:
  "argumentsAccepted d (req \<lparr> Parameters := params \<rparr>) = argumentsAccepted d req"
  by (simp add: argumentsAccepted_def volSizeBytes_Parameters)

subsection \<open>The paths of CreateVolume\<close>

lemma CreateVolume_rejected:
  "\<not> argumentsAccepted d req \<Longrightarrow> CreateVolume d req s = (Inl (Status InvalidArgument), s)"
  by (auto simp: argumentsAccepted_def CreateVolume_def Let_def)

lemma CreateVolume_found:
  assumes "argumentsAccepted d req"
    and "GetDiskByName (cloud d) (Name req) (volSizeBytes req) s = ((Some disk, e), s')"
    and "e = None \<or> e = Some ErrNotFound"
  shows "CreateVolume d req s = (Inr (newCreateVolumeResponse (topologyKey d) disk), s')"
  using assms by (auto simp: argumentsAccepted_def CreateVolume_def Let_def)

lemma CreateVolume_not_found:
  assumes "argumentsAccepted d req"
    and "GetDiskByName (cloud d) (Name req) (volSizeBytes req) s = ((None, e), s')"
    and "e = None \<or> e = Some ErrNotFound"
  shows "CreateVolume d req s = createNewVolume d req s'"
  using assms by (auto simp: argumentsAccepted_def CreateVolume_def Let_def)

lemma CreateVolume_lookup_failed:
  assumes "argumentsAccepted d req"
    and "GetDiskByName (cloud d) (Name req) (volSizeBytes req) s = ((disk, Some e), s')"
    and "e \<noteq> ErrNotFound"
  shows "CreateVolume d req s =
           (Inl (Status (if e = ErrDiskExistsDiffSize then AlreadyExists else Internal)), s')"
  using assms by (cases e; cases disk) (auto simp: argumentsAccepted_def CreateVolume_def Let_def)

lemma createNewVolume_fsType:
  "createNewVolume d req s = (Inr v, s') \<Longrightarrow>
     VolumeContext v = [''fsType'' \<mapsto> index_map (Parameters req) ''fsType'']"
  by (auto simp: createNewVolume_def Let_def newCreateVolumeResponse_def
      split: option.splits prod.splits VolumeContentSource_Type.splits if_splits)


subsection \<open>CreateVolume over the modelled provider\<close>

lemma provider_methods:
  "GetDiskByName (provider vk sk) = provider_GetDiskByName"
  "CreateDisk (provider vk sk) = provider_CreateDisk"
  "DeleteDisk (provider vk sk) = provider_DeleteDisk"
  "GetDiskByID (provider vk sk) = provider_GetDiskByID"
  by (simp_all add: provider_def)

lemma named_fst: "e \<in> set (named name xs) \<Longrightarrow> fst e = name"
  by (simp add: named_def)

lemma named_append: "named name (xs @ ys) = named name xs @ named name ys"
  by (simp add: named_def)

lemma createNewVolume_provider:
  assumes "cloud d = provider vk sk"
    and "named (Name req) (disks st) = []"
    and "createNewVolume d req st = (Inr v, st')"
  shows "\<exists>disk. disks st' = disks st @ [(Name req, disk)] \<and>
           GiBToBytes (CapacityGiB disk) = volSizeBytes req \<and>
           VolumeId v = VolumeID disk \<and> vol_CapacityBytes v = volSizeBytes req"
  using assms
  by (auto simp: createNewVolume_def provider_methods provider_CreateDisk_def Let_def
      newCreateVolumeResponse_def volSizeBytes_whole
      split: option.splits VolumeContentSource_Type.splits if_splits)


lemma CreateVolume_provider_single:
  assumes "cloud d = provider vk sk"
    and "argumentsAccepted d req"
    and "named (Name req) (disks st) = [e]"
  shows "CreateVolume d req st =
           (if GiBToBytes (CapacityGiB (snd e)) = volSizeBytes req
            then (Inr (newCreateVolumeResponse (topologyKey d) (snd e)), st)
            else (Inl (Status AlreadyExists), st))"
proof (cases "GiBToBytes (CapacityGiB (snd e)) = volSizeBytes req")
  case True
  with assms have "GetDiskByName (cloud d) (Name req) (volSizeBytes req) st
      = ((Some (snd e), None), st)"
    by (simp add: provider_methods provider_GetDiskByName_def)
  with assms True show ?thesis
    by (simp add: CreateVolume_found)
next
  case False
  with assms have "GetDiskByName (cloud d) (Name req) (volSizeBytes req) st
      = ((None, Some ErrDiskExistsDiffSize), st)"
    by (simp add: provider_methods provider_GetDiskByName_def)
  with assms False show ?thesis
    by (simp add: CreateVolume_lookup_failed)
qed

lemma CreateVolume_provider_success:
  assumes prov: "cloud d = provider vk sk"
    and ok: "CreateVolume d req st = (Inr v, st')"
  shows "argumentsAccepted d req \<and>
         (\<exists>disk. named (Name req) (disks st') = [(Name req, disk)] \<and>
            GiBToBytes (CapacityGiB disk) = volSizeBytes req \<and>
            VolumeId v = VolumeID disk \<and> vol_CapacityBytes v = volSizeBytes req)"
proof
  show acc: "argumentsAccepted d req"
    using ok CreateVolume_rejected [of d req st] by auto
  show "\<exists>disk. named (Name req) (disks st') = [(Name req, disk)] \<and>
            GiBToBytes (CapacityGiB disk) = volSizeBytes req \<and>
            VolumeId v = VolumeID disk \<and> vol_CapacityBytes v = volSizeBytes req"
  proof (cases "named (Name req) (disks st)")
    case Nil
    then have "GetDiskByName (cloud d) (Name req) (volSizeBytes req) st
        = ((None, Some ErrNotFound), st)"
      by (simp add: prov provider_methods provider_GetDiskByName_def)
    with acc have "CreateVolume d req st = createNewVolume d req st"
      by (simp add: CreateVolume_not_found)
    with ok have "createNewVolume d req st = (Inr v, st')"
      by simp
    from createNewVolume_provider [OF prov Nil this] obtain disk where
      "disks st' = disks st @ [(Name req, disk)]"
      "GiBToBytes (CapacityGiB disk) = volSizeBytes req"
      "VolumeId v = VolumeID disk" "vol_CapacityBytes v = volSizeBytes req"
      by blast
    with Nil show ?thesis
      by (auto simp: named_append) (simp add: named_def)
  next
    case (Cons e es)
    show ?thesis
    proof (cases es)
      case Nil
      with Cons have single: "named (Name req) (disks st) = [e]"
        by simp
      then have "fst e = Name req"
        using named_fst [of e "Name req" "disks st"] by simp
      then have e: "e = (Name req, snd e)"
        by (cases e) simp
      from CreateVolume_provider_single [OF prov acc single] ok
      have "GiBToBytes (CapacityGiB (snd e)) = volSizeBytes req"
        "v = newCreateVolumeResponse (topologyKey d) (snd e)" "st' = st"
        by (auto split: if_splits)
      with single e show ?thesis
        by (auto simp: newCreateVolumeResponse_def)
    next
      case (Cons e' es')
      with \<open>named (Name req) (disks st) = e # es\<close>
      have "GetDiskByName (cloud d) (Name req) (volSizeBytes req) st
          = ((None, Some ErrMultiDisks), st)"
        by (simp add: prov provider_methods provider_GetDiskByName_def)
      with acc have "CreateVolume d req st = (Inl (Status Internal), st)"
        by (simp add: CreateVolume_lookup_failed)
      with ok show ?thesis by simp
    qed
  qed
qed



subsection \<open>Evaluation on the sample values\<close>

lemmas provider_defs =
  provider_def provider_GetDiskByName_def provider_CreateDisk_def provider_DeleteDisk_def
  provider_GetDiskByID_def provider_IsExistInstance_def provider_AttachDisk_def
  provider_GetSnapshotByName_def provider_CreateSnapshot_def devicePaths_def named_def
  digits.simps

lemmas fixture_defs =
  ebsDriver_def throttledDriver_def emptyProvider_def sampleProvider_def writerCap_def
  readerCap_def sizedRequest_def

lemma ebsDriver_provider: "cloud ebsDriver = provider ''volume-name'' ''snapshot-name''"
  by (simp add: ebsDriver_def)

lemma sizedRequest_accepted:
  "name \<noteq> [] \<Longrightarrow> argumentsAccepted ebsDriver (sizedRequest name bytes)"
  by (simp add: argumentsAccepted_def GetLimitBytes_def isValidVolumeCapabilities_def GetMode_def
      fixture_defs)

lemma volSizeBytes_sizedRequest: "volSizeBytes (sizedRequest name bytes) = RoundUpBytes bytes"
  by (simp add: volSizeBytes_def volSize_def GetRequiredBytes_def sizedRequest_def)

lemma RoundUpBytes_samples:
  "RoundUpBytes 0 = 0"
  "RoundUpBytes (- 5) = 0"
  "RoundUpBytes 10000 = 1073741824"
  "RoundUpBytes 1073741824 = 1073741824"
  "RoundUpBytes 1073741825 = 2147483648"
  "RoundUpBytes 5368709119 = 5368709120"
  "RoundUpBytes 5368709120 = 5368709120"
  "RoundUpBytes 10737418240 = 10737418240"
  "RoundUpBytes 9223372036854775807 = - 9223372036854775808"
  by (simp_all add: RoundUpBytes_def GiB_def int64_def)

lemma GiBToBytes_samples:
  "GiBToBytes 0 = 0"
  "GiBToBytes 1 = 1073741824"
  "GiBToBytes 2 = 2147483648"
  "GiBToBytes 5 = 5368709120"
  "GiBToBytes 10 = 10737418240"
  "GiBToBytes (- 8589934592) = - 9223372036854775808"
  by (simp_all add: GiBToBytes_def GiB_def int64_def)

lemma createNewVolume_on_emptyProvider:
  "createNewVolume ebsDriver (sizedRequest name bytes) emptyProvider
     = (Inr (newCreateVolumeResponse ''zone'' (firstVolume (RoundUpBytes bytes div GiB))),
        afterCreate name (RoundUpBytes bytes div GiB))"
proof -
  have "provider_CreateDisk name
      \<lparr> CapacityBytes = volSizeBytes (sizedRequest name bytes),
        Tags = [''volume-name'' \<mapsto> name], VolumeType = [], IOPSPerGB = 0,
        opt_AvailabilityZone = [], Encrypted = False, KmsKeyID = [], SnapshotID = [] \<rparr>
      emptyProvider
      = ((Some (firstVolume (RoundUpBytes bytes div GiB)), None),
         afterCreate name (RoundUpBytes bytes div GiB))"
    by (simp add: provider_CreateDisk_def volSizeBytes_sizedRequest named_def emptyProvider_def
        firstVolume_def afterCreate_def digits.simps Let_def)
  then show ?thesis
    by (simp add: createNewVolume_def ebsDriver_def provider_def sizedRequest_def index_map_def
        pickAvailabilityZone_def VolumeTypeIO1_def Let_def firstVolume_def)
qed

lemma CreateVolume_on_emptyProvider:
  assumes "name \<noteq> []"
  shows "CreateVolume ebsDriver (sizedRequest name bytes) emptyProvider
     = (Inr (newCreateVolumeResponse ''zone'' (firstVolume (RoundUpBytes bytes div GiB))),
        afterCreate name (RoundUpBytes bytes div GiB))"
proof -
  have "GetDiskByName (cloud ebsDriver) (Name (sizedRequest name bytes))
      (volSizeBytes (sizedRequest name bytes)) emptyProvider
      = ((None, Some ErrNotFound), emptyProvider)"
    by (simp add: ebsDriver_def provider_def provider_GetDiskByName_def named_def
        emptyProvider_def)
  from CreateVolume_not_found [OF sizedRequest_accepted [OF assms] this]
  show ?thesis
    by (simp add: createNewVolume_on_emptyProvider)
qed


lemma CreateVolume_fsType_on_emptyProvider:
  "CreateVolume ebsDriver
     ((sizedRequest ''test-vol'' 1073741824) \<lparr> Parameters := [''fsType'' \<mapsto> ''xfs''] \<rparr>)
     emptyProvider
   = (Inr (newCreateVolumeResponse ''zone'' ((firstVolume 1) \<lparr> FsType := ''xfs'' \<rparr>)),
      afterCreate ''test-vol'' 1)"
proof -
  let ?req = "(sizedRequest ''test-vol'' 1073741824) \<lparr> Parameters := [''fsType'' \<mapsto> ''xfs''] \<rparr>"
  have size: "volSizeBytes ?req = 1073741824"
    by (simp add: volSizeBytes_Parameters volSizeBytes_sizedRequest RoundUpBytes_samples)
  have acc: "argumentsAccepted ebsDriver ?req"
    by (simp add: argumentsAccepted_Parameters sizedRequest_accepted)
  have "GetDiskByName (cloud ebsDriver) (Name ?req) (volSizeBytes ?req) emptyProvider
      = ((None, Some ErrNotFound), emptyProvider)"
    by (simp add: ebsDriver_def provider_def provider_GetDiskByName_def named_def
        emptyProvider_def)
  from CreateVolume_not_found [OF acc this]
  have call: "CreateVolume ebsDriver ?req emptyProvider = createNewVolume ebsDriver ?req emptyProvider"
    by simp
  have "provider_CreateDisk ''test-vol''
      \<lparr> CapacityBytes = 1073741824,
        Tags = [''volume-name'' \<mapsto> ''test-vol''], VolumeType = [], IOPSPerGB = 0,
        opt_AvailabilityZone = [], Encrypted = False, KmsKeyID = [], SnapshotID = [] \<rparr>
      emptyProvider = ((Some (firstVolume 1), None), afterCreate ''test-vol'' 1)"
    by (simp add: provider_CreateDisk_def named_def emptyProvider_def
        firstVolume_def afterCreate_def digits.simps GiB_def Let_def)
  then have "createNewVolume ebsDriver ?req emptyProvider
      = (Inr (newCreateVolumeResponse ''zone'' ((firstVolume 1) \<lparr> FsType := ''xfs'' \<rparr>)),
         afterCreate ''test-vol'' 1)"
    unfolding createNewVolume_def size
    by (simp add: ebsDriver_def provider_def sizedRequest_def index_map_def
        pickAvailabilityZone_def VolumeTypeIO1_def Let_def)
  with call show ?thesis by simp
qed

section \<open>The claims\<close>






text \<open>
  C3 (as amended). Over the modelled provider: for a request with a positive required
  byte count \<open>B\<close> of at most \<open>2^63 - 2^30\<close>, the capacity \<open>C\<close> of a CreateVolume response
  satisfies \<open>C mod 2^30 = 0\<close> and \<open>C - 2^30 < B \<le> C\<close>; a request for 1073741825 bytes is
  answered with 2147483648. The claim as stated, for every positive byte count, fails
  above that bound: the largest multiple of 2^30 a 64-bit capacity holds is
  \<open>2^63 - 2^30\<close>, and the request for \<open>2^63 - 1\<close> bytes is answered with a negative
  capacity (the counterexample).
\<close>

theorem CreateVolume_capacity_rounded_up:
  assumes "cloud d = provider vk sk"
    and "CapacityRange req = Some capRange"
    and "0 < RequiredBytes capRange"
    and "RequiredBytes capRange \<le> 2 ^ 63 - 2 ^ 30"
    and "CreateVolume d req st = (Inr v, st')"
  shows "vol_CapacityBytes v mod 2 ^ 30 = 0 \<and>
         vol_CapacityBytes v - 2 ^ 30 < RequiredBytes capRange \<and>
         RequiredBytes capRange \<le> vol_CapacityBytes v \<and>
         (RequiredBytes capRange = 1073741825 \<longrightarrow> vol_CapacityBytes v = 2147483648)"
proof -
  from CreateVolume_provider_success [OF assms(1,5)]
  have "vol_CapacityBytes v = volSizeBytes req"
    by blast
  with assms(2) have c: "vol_CapacityBytes v = RoundUpBytes (RequiredBytes capRange)"
    by (simp add: volSizeBytes_range)
  have low: "- (2 ^ 63) \<le> RequiredBytes capRange"
    using assms(3) by simp
  from c RoundUpBytes_multiple [of "RequiredBytes capRange"]
    RoundUpBytes_less [OF low assms(4)] RoundUpBytes_ge [OF low assms(4)]
  show ?thesis
    by (auto simp: GiB_def RoundUpBytes_samples)
qed

theorem CreateVolume_capacity_rounded_up_witness:
  "CreateVolume ebsDriver (sizedRequest ''test-vol'' 1073741825) emptyProvider
     = (Inr (newCreateVolumeResponse ''zone'' (firstVolume 2)), afterCreate ''test-vol'' 2) \<and>
   vol_CapacityBytes (newCreateVolumeResponse ''zone'' (firstVolume 2)) = 2147483648 \<and>
   (2147483648 :: int) mod 2 ^ 30 = 0 \<and> (2147483648 :: int) - 2 ^ 30 < 1073741825 \<and>
   (1073741825 :: int) \<le> 2147483648"
proof -
  have call: "CreateVolume ebsDriver (sizedRequest ''test-vol'' 1073741825) emptyProvider
     = (Inr (newCreateVolumeResponse ''zone'' (firstVolume 2)), afterCreate ''test-vol'' 2)"
    using CreateVolume_on_emptyProvider [of "''test-vol''" 1073741825]
    by (simp add: RoundUpBytes_samples GiB_def)
  have range: "CapacityRange (sizedRequest ''test-vol'' 1073741825)
      = Some \<lparr> RequiredBytes = 1073741825, LimitBytes = 0 \<rparr>"
    by (simp add: sizedRequest_def)
  have pos: "0 < RequiredBytes \<lparr> RequiredBytes = 1073741825, LimitBytes = 0 \<rparr>"
    by simp
  have fits: "RequiredBytes \<lparr> RequiredBytes = 1073741825, LimitBytes = 0 \<rparr> \<le> 2 ^ 63 - 2 ^ 30"
    by simp
  from CreateVolume_capacity_rounded_up [OF ebsDriver_provider range pos fits call] call
  show ?thesis
    by simp
qed

theorem CreateVolume_capacity_overflow_counterexample:
  "CreateVolume ebsDriver (sizedRequest ''test-vol'' 9223372036854775807) emptyProvider
     = (Inr (newCreateVolumeResponse ''zone'' (firstVolume (- 8589934592))),
        afterCreate ''test-vol'' (- 8589934592)) \<and>
   vol_CapacityBytes (newCreateVolumeResponse ''zone'' (firstVolume (- 8589934592)))
     = - 9223372036854775808 \<and>
   (- 9223372036854775808 :: int) < 9223372036854775807 \<and>
   (9223372036854775807 :: int) div 2 ^ 30 * 2 ^ 30 = 2 ^ 63 - 2 ^ 30 \<and>
   (2 ^ 63 - 2 ^ 30 :: int) < 9223372036854775807"
  using CreateVolume_on_emptyProvider [of "''test-vol''" 9223372036854775807]
  by (simp add: RoundUpBytes_samples GiBToBytes_samples GiB_def newCreateVolumeResponse_def
      firstVolume_def)




text \<open>
  C5. ValidateVolumeCapabilities refuses an empty volume ID and an empty capability list
  with InvalidArgument and answers NotFound when the provider does not find the disk.
  When the provider finds it, the call succeeds, and it confirms the supplied
  capabilities if and only if the access mode of every one of them is among the driver's
  supported modes; otherwise the confirmation is empty.
\<close>

theorem ValidateVolumeCapabilities_confirmed_iff_supported:
  "(val_VolumeId req = [] \<longrightarrow>
      ValidateVolumeCapabilities d req s = (Inl (Status InvalidArgument), s)) \<and>
   (val_VolumeCapabilities req = [] \<longrightarrow>
      ValidateVolumeCapabilities d req s = (Inl (Status InvalidArgument), s)) \<and>
   (val_VolumeId req \<noteq> [] \<and> val_VolumeCapabilities req \<noteq> [] \<and>
    GetDiskByID (cloud d) (val_VolumeId req) s = ((disk, Some ErrNotFound), s') \<longrightarrow>
      ValidateVolumeCapabilities d req s = (Inl (Status NotFound), s')) \<and>
   (val_VolumeId req \<noteq> [] \<and> val_VolumeCapabilities req \<noteq> [] \<and>
    GetDiskByID (cloud d) (val_VolumeId req) s = ((disk, None), s') \<longrightarrow>
      ValidateVolumeCapabilities d req s =
        (Inr \<lparr> Confirmed =
                 (if \<forall>c \<in> set (val_VolumeCapabilities req).
                        GetMode (AccessMode c) \<in> set (volumeCaps d)
                  then Some (val_VolumeCapabilities req) else None) \<rparr>, s'))"
  by (auto simp: ValidateVolumeCapabilities_def isValidVolumeCapabilities_iff Let_def)

theorem ValidateVolumeCapabilities_confirmed_iff_supported_witness:
  "ValidateVolumeCapabilities ebsDriver
     \<lparr> val_VolumeId = [], val_VolumeCapabilities = [writerCap] \<rparr> sampleProvider
     = (Inl (Status InvalidArgument), sampleProvider) \<and>
   ValidateVolumeCapabilities ebsDriver
     \<lparr> val_VolumeId = ''vol-0'', val_VolumeCapabilities = [] \<rparr> sampleProvider
     = (Inl (Status InvalidArgument), sampleProvider) \<and>
   ValidateVolumeCapabilities ebsDriver
     \<lparr> val_VolumeId = ''vol-9'', val_VolumeCapabilities = [writerCap] \<rparr> sampleProvider
     = (Inl (Status NotFound), sampleProvider) \<and>
   ValidateVolumeCapabilities ebsDriver
     \<lparr> val_VolumeId = ''vol-0'', val_VolumeCapabilities = [writerCap] \<rparr> sampleProvider
     = (Inr \<lparr> Confirmed = Some [writerCap] \<rparr>, sampleProvider) \<and>
   ValidateVolumeCapabilities ebsDriver
     \<lparr> val_VolumeId = ''vol-0'', val_VolumeCapabilities = [writerCap, readerCap] \<rparr> sampleProvider
     = (Inr \<lparr> Confirmed = None \<rparr>, sampleProvider)"
  using
    ValidateVolumeCapabilities_confirmed_iff_supported
      [where req = "\<lparr> val_VolumeId = [], val_VolumeCapabilities = [writerCap] \<rparr>"
         and d = ebsDriver and s = sampleProvider]
    ValidateVolumeCapabilities_confirmed_iff_supported
      [where req = "\<lparr> val_VolumeId = ''vol-0'', val_VolumeCapabilities = [] \<rparr>"
         and d = ebsDriver and s = sampleProvider]
    ValidateVolumeCapabilities_confirmed_iff_supported
      [where req = "\<lparr> val_VolumeId = ''vol-9'', val_VolumeCapabilities = [writerCap] \<rparr>"
         and d = ebsDriver and s = sampleProvider and disk = None and s' = sampleProvider]
    ValidateVolumeCapabilities_confirmed_iff_supported
      [where req = "\<lparr> val_VolumeId = ''vol-0'', val_VolumeCapabilities = [writerCap] \<rparr>"
         and d = ebsDriver and s = sampleProvider and s' = sampleProvider
         and disk = "Some \<lparr> VolumeID = ''vol-0'', CapacityGiB = 1,
                             AvailabilityZone = ''us-west-2a'', FsType = [] \<rparr>"]
    ValidateVolumeCapabilities_confirmed_iff_supported
      [where req = "\<lparr> val_VolumeId = ''vol-0'', val_VolumeCapabilities = [writerCap, readerCap] \<rparr>"
         and d = ebsDriver and s = sampleProvider and s' = sampleProvider
         and disk = "Some \<lparr> VolumeID = ''vol-0'', CapacityGiB = 1,
                             AvailabilityZone = ''us-west-2a'', FsType = [] \<rparr>"]
  by (simp add: provider_defs fixture_defs GetMode_def)

text \<open>
  C6. DeleteVolume refuses an empty volume ID with InvalidArgument. For another ID it
  succeeds when the provider deletes the disk and when the provider reports ErrNotFound,
  and returns Internal for every other error of the provider. Hence two calls in a row
  for the same ID both succeed, the provider reporting nothing but success or ErrNotFound.
\<close>

theorem DeleteVolume_idempotent:
  "(del_VolumeId req = [] \<longrightarrow> DeleteVolume d req s = (Inl (Status InvalidArgument), s)) \<and>
   (del_VolumeId req \<noteq> [] \<and> DeleteDisk (cloud d) (del_VolumeId req) s = ((b, Some ErrNotFound), sa)
      \<longrightarrow> DeleteVolume d req s = (Inr DeleteVolumeResponse, sa)) \<and>
   (del_VolumeId req \<noteq> [] \<and> DeleteDisk (cloud d) (del_VolumeId req) s = ((b, Some e), sa) \<and>
    e \<noteq> ErrNotFound
      \<longrightarrow> DeleteVolume d req s = (Inl (Status Internal), sa)) \<and>
   (del_VolumeId req \<noteq> [] \<and> DeleteDisk (cloud d) (del_VolumeId req) s = ((b, None), sa)
      \<longrightarrow> DeleteVolume d req s = (Inr DeleteVolumeResponse, sa)) \<and>
   (del_VolumeId req \<noteq> [] \<and>
    DeleteDisk (cloud d) (del_VolumeId req) s = ((b, ea), sa) \<and>
    DeleteDisk (cloud d) (del_VolumeId req) sa = ((b', eb), sb) \<and>
    ea \<in> {None, Some ErrNotFound} \<and> eb \<in> {None, Some ErrNotFound}
      \<longrightarrow> DeleteVolume d req s = (Inr DeleteVolumeResponse, sa) \<and>
          DeleteVolume d req sa = (Inr DeleteVolumeResponse, sb))"
  by (auto simp: DeleteVolume_def Let_def)

theorem DeleteVolume_idempotent_witness:
  "DeleteVolume ebsDriver \<lparr> del_VolumeId = [] \<rparr> sampleProvider
     = (Inl (Status InvalidArgument), sampleProvider) \<and>
   DeleteVolume ebsDriver \<lparr> del_VolumeId = ''vol-9'' \<rparr> sampleProvider
     = (Inr DeleteVolumeResponse, sampleProvider) \<and>
   DeleteVolume throttledDriver \<lparr> del_VolumeId = ''vol-0'' \<rparr> sampleProvider
     = (Inl (Status Internal), sampleProvider) \<and>
   DeleteVolume ebsDriver \<lparr> del_VolumeId = ''vol-0'' \<rparr> sampleProvider
     = (Inr DeleteVolumeResponse,
        sampleProvider \<lparr> disks := [(''other-vol'', \<lparr> VolumeID = ''vol-1'', CapacityGiB = 5,
                                      AvailabilityZone = ''us-west-2a'', FsType = [] \<rparr>)] \<rparr>) \<and>
   DeleteVolume ebsDriver \<lparr> del_VolumeId = ''vol-0'' \<rparr>
       (sampleProvider \<lparr> disks := [(''other-vol'', \<lparr> VolumeID = ''vol-1'', CapacityGiB = 5,
                                      AvailabilityZone = ''us-west-2a'', FsType = [] \<rparr>)] \<rparr>)
     = (Inr DeleteVolumeResponse,
        sampleProvider \<lparr> disks := [(''other-vol'', \<lparr> VolumeID = ''vol-1'', CapacityGiB = 5,
                                      AvailabilityZone = ''us-west-2a'', FsType = [] \<rparr>)] \<rparr>)"
  using
    DeleteVolume_idempotent
      [where req = "\<lparr> del_VolumeId = [] \<rparr>" and d = ebsDriver and s = sampleProvider]
    DeleteVolume_idempotent
      [where req = "\<lparr> del_VolumeId = ''vol-9'' \<rparr>" and d = ebsDriver and s = sampleProvider
         and b = False and sa = sampleProvider]
    DeleteVolume_idempotent
      [where req = "\<lparr> del_VolumeId = ''vol-0'' \<rparr>" and d = throttledDriver
         and s = sampleProvider and b = False and e = "ErrOther ''throttled''"
         and sa = sampleProvider]
    DeleteVolume_idempotent
      [where req = "\<lparr> del_VolumeId = ''vol-0'' \<rparr>" and d = ebsDriver and s = sampleProvider
         and b = True and ea = None and b' = False and eb = "Some ErrNotFound"
         and sa = "sampleProvider \<lparr> disks := [(''other-vol'', \<lparr> VolumeID = ''vol-1'',
                     CapacityGiB = 5, AvailabilityZone = ''us-west-2a'', FsType = [] \<rparr>)] \<rparr>"
         and sb = "sampleProvider \<lparr> disks := [(''other-vol'', \<lparr> VolumeID = ''vol-1'',
                     CapacityGiB = 5, AvailabilityZone = ''us-west-2a'', FsType = [] \<rparr>)] \<rparr>"]
  by (simp add: provider_defs fixture_defs)

text \<open>
  C7. CreateSnapshot refuses an empty name and an empty source volume ID with
  InvalidArgument. When the provider finds a snapshot of the name, a source volume that
  differs from the request's gives AlreadyExists, and a source volume that matches gives
  that snapshot back, ready to use; its creation time is the timestamp the conversion of
  the snapshot's time yields.
\<close>

theorem CreateSnapshot_idempotent_or_conflict:
  "(snap_Name req = [] \<longrightarrow> CreateSnapshot d req s = (Inl (Status InvalidArgument), s)) \<and>
   (SourceVolumeId req = [] \<longrightarrow> CreateSnapshot d req s = (Inl (Status InvalidArgument), s)) \<and>
   (snap_Name req \<noteq> [] \<and> SourceVolumeId req \<noteq> [] \<and>
    GetSnapshotByName (cloud d) (snap_Name req) s = ((Some snapshot, e), sa) \<and>
    (e = None \<or> e = Some ErrNotFound) \<and>
    SourceVolumeID snapshot \<noteq> SourceVolumeId req
      \<longrightarrow> CreateSnapshot d req s = (Inl (Status AlreadyExists), sa)) \<and>
   (snap_Name req \<noteq> [] \<and> SourceVolumeId req \<noteq> [] \<and>
    GetSnapshotByName (cloud d) (snap_Name req) s = ((Some snapshot, e), sa) \<and>
    (e = None \<or> e = Some ErrNotFound) \<and>
    SourceVolumeID snapshot = SourceVolumeId req \<and>
    TimestampProto d (CreationTime snapshot) = Some ts
      \<longrightarrow> CreateSnapshot d req s =
            (Inr \<lparr> SnapshotId = snap_SnapshotID snapshot,
                    csi_SourceVolumeId = SourceVolumeID snapshot,
                    SizeBytes = Size snapshot,
                    csi_CreationTime = ts,
                    ReadyToUse = True \<rparr>, sa))"
  by (auto simp: CreateSnapshot_def newCreateSnapshotResponse_def Let_def)

theorem CreateSnapshot_idempotent_or_conflict_witness:
  "CreateSnapshot ebsDriver \<lparr> snap_Name = [], SourceVolumeId = ''vol-a'' \<rparr> sampleProvider
     = (Inl (Status InvalidArgument), sampleProvider) \<and>
   CreateSnapshot ebsDriver \<lparr> snap_Name = ''s1'', SourceVolumeId = [] \<rparr> sampleProvider
     = (Inl (Status InvalidArgument), sampleProvider) \<and>
   CreateSnapshot ebsDriver \<lparr> snap_Name = ''s1'', SourceVolumeId = ''vol-b'' \<rparr> sampleProvider
     = (Inl (Status AlreadyExists), sampleProvider) \<and>
   CreateSnapshot ebsDriver \<lparr> snap_Name = ''s1'', SourceVolumeId = ''vol-a'' \<rparr> sampleProvider
     = (Inr \<lparr> SnapshotId = ''snap-2'', csi_SourceVolumeId = ''vol-a'', SizeBytes = 1073741824,
               csi_CreationTime = \<lparr> Seconds = 1500000000, Nanos = 0 \<rparr>, ReadyToUse = True \<rparr>,
        sampleProvider)"
  using
    CreateSnapshot_idempotent_or_conflict
      [where req = "\<lparr> snap_Name = [], SourceVolumeId = ''vol-a'' \<rparr>" and d = ebsDriver
         and s = sampleProvider]
    CreateSnapshot_idempotent_or_conflict
      [where req = "\<lparr> snap_Name = ''s1'', SourceVolumeId = [] \<rparr>" and d = ebsDriver
         and s = sampleProvider]
    CreateSnapshot_idempotent_or_conflict
      [where req = "\<lparr> snap_Name = ''s1'', SourceVolumeId = ''vol-b'' \<rparr>" and d = ebsDriver
         and s = sampleProvider and sa = sampleProvider and e = None
         and snapshot = "\<lparr> snap_SnapshotID = ''snap-2'', SourceVolumeID = ''vol-a'',
                           Size = 1073741824,
                           CreationTime = \<lparr> unix = 1500000000, nanosecond = 0 \<rparr> \<rparr>"]
    CreateSnapshot_idempotent_or_conflict
      [where req = "\<lparr> snap_Name = ''s1'', SourceVolumeId = ''vol-a'' \<rparr>" and d = ebsDriver
         and s = sampleProvider and sa = sampleProvider and e = None
         and ts = "\<lparr> Seconds = 1500000000, Nanos = 0 \<rparr>"
         and snapshot = "\<lparr> snap_SnapshotID = ''snap-2'', SourceVolumeID = ''vol-a'',
                           Size = 1073741824,
                           CreationTime = \<lparr> unix = 1500000000, nanosecond = 0 \<rparr> \<rparr>"]
  by (simp add: provider_defs fixture_defs)

text \<open>
  C8. ControllerPublishVolume refuses a request without volume ID, node ID or capability,
  or with an unsupported capability, with InvalidArgument. It answers NotFound when the
  instance does not exist and when the provider does not find the disk. When attaching
  fails, ErrAlreadyExists gives AlreadyExists and every other error gives Internal. On
  success the publish context holds the device path the provider reported, under the key
  \<^verbatim>\<open>devicePath\<close> and no other.
\<close>

theorem ControllerPublishVolume_outcomes:
  "(pub_VolumeId req = [] \<or> pub_NodeId req = [] \<or> pub_VolumeCapability req = None
      \<longrightarrow> ControllerPublishVolume d req s = (Inl (Status InvalidArgument), s)) \<and>
   (pub_VolumeCapability req = Some volCap \<and> GetMode (AccessMode volCap) \<notin> set (volumeCaps d)
      \<longrightarrow> ControllerPublishVolume d req s = (Inl (Status InvalidArgument), s)) \<and>
   (pub_VolumeId req \<noteq> [] \<and> pub_NodeId req \<noteq> [] \<and> pub_VolumeCapability req = Some volCap \<and>
    GetMode (AccessMode volCap) \<in> set (volumeCaps d) \<longrightarrow>
      (IsExistInstance (cloud d) (pub_NodeId req) s = (False, sa)
         \<longrightarrow> ControllerPublishVolume d req s = (Inl (Status NotFound), sa)) \<and>
      (IsExistInstance (cloud d) (pub_NodeId req) s = (True, sa) \<longrightarrow>
         (GetDiskByID (cloud d) (pub_VolumeId req) sa = ((disk, Some ErrNotFound), sb)
            \<longrightarrow> ControllerPublishVolume d req s = (Inl (Status NotFound), sb)) \<and>
         (GetDiskByID (cloud d) (pub_VolumeId req) sa = ((disk, None), sb) \<longrightarrow>
            (AttachDisk (cloud d) (pub_VolumeId req) (pub_NodeId req) sb
               = ((path, Some ErrAlreadyExists), sc)
               \<longrightarrow> ControllerPublishVolume d req s = (Inl (Status AlreadyExists), sc)) \<and>
            (AttachDisk (cloud d) (pub_VolumeId req) (pub_NodeId req) sb = ((path, Some e), sc) \<and>
             e \<noteq> ErrAlreadyExists
               \<longrightarrow> ControllerPublishVolume d req s = (Inl (Status Internal), sc)) \<and>
            (AttachDisk (cloud d) (pub_VolumeId req) (pub_NodeId req) sb = ((path, None), sc)
               \<longrightarrow> ControllerPublishVolume d req s
                     = (Inr \<lparr> PublishContext = [''devicePath'' \<mapsto> path] \<rparr>, sc) \<and>
                   dom [''devicePath'' \<mapsto> path] = {''devicePath''}))))"
  by (auto simp: ControllerPublishVolume_def isValidVolumeCapabilities_iff Let_def)

theorem ControllerPublishVolume_outcomes_witness:
  "ControllerPublishVolume ebsDriver
     \<lparr> pub_VolumeId = ''vol-0'', pub_NodeId = ''i-0'', pub_VolumeCapability = None \<rparr>
     sampleProvider = (Inl (Status InvalidArgument), sampleProvider) \<and>
   ControllerPublishVolume ebsDriver
     \<lparr> pub_VolumeId = ''vol-0'', pub_NodeId = ''i-0'', pub_VolumeCapability = Some readerCap \<rparr>
     sampleProvider = (Inl (Status InvalidArgument), sampleProvider) \<and>
   ControllerPublishVolume ebsDriver
     \<lparr> pub_VolumeId = ''vol-0'', pub_NodeId = ''i-9'', pub_VolumeCapability = Some writerCap \<rparr>
     sampleProvider = (Inl (Status NotFound), sampleProvider) \<and>
   ControllerPublishVolume ebsDriver
     \<lparr> pub_VolumeId = ''vol-9'', pub_NodeId = ''i-0'', pub_VolumeCapability = Some writerCap \<rparr>
     sampleProvider = (Inl (Status NotFound), sampleProvider) \<and>
   ControllerPublishVolume ebsDriver
     \<lparr> pub_VolumeId = ''vol-1'', pub_NodeId = ''i-0'', pub_VolumeCapability = Some writerCap \<rparr>
     sampleProvider = (Inl (Status AlreadyExists), sampleProvider) \<and>
   ControllerPublishVolume throttledDriver
     \<lparr> pub_VolumeId = ''vol-0'', pub_NodeId = ''i-0'', pub_VolumeCapability = Some writerCap \<rparr>
     sampleProvider = (Inl (Status Internal), sampleProvider) \<and>
   ControllerPublishVolume ebsDriver
     \<lparr> pub_VolumeId = ''vol-0'', pub_NodeId = ''i-0'', pub_VolumeCapability = Some writerCap \<rparr>
     sampleProvider
     = (Inr \<lparr> PublishContext = [''devicePath'' \<mapsto> ''/dev/xvdba''] \<rparr>,
        sampleProvider \<lparr> attachments := [(''vol-1'', ''i-1'', ''/dev/xvdba''),
                                          (''vol-0'', ''i-0'', ''/dev/xvdba'')] \<rparr>)"
  using
    ControllerPublishVolume_outcomes
      [where req = "\<lparr> pub_VolumeId = ''vol-0'', pub_NodeId = ''i-0'',
                        pub_VolumeCapability = None \<rparr>"
         and d = ebsDriver and s = sampleProvider]
    ControllerPublishVolume_outcomes
      [where req = "\<lparr> pub_VolumeId = ''vol-0'', pub_NodeId = ''i-0'',
                        pub_VolumeCapability = Some readerCap \<rparr>"
         and d = ebsDriver and s = sampleProvider and volCap = readerCap]
    ControllerPublishVolume_outcomes
      [where req = "\<lparr> pub_VolumeId = ''vol-0'', pub_NodeId = ''i-9'',
                        pub_VolumeCapability = Some writerCap \<rparr>"
         and d = ebsDriver and s = sampleProvider and volCap = writerCap
         and sa = sampleProvider]
    ControllerPublishVolume_outcomes
      [where req = "\<lparr> pub_VolumeId = ''vol-9'', pub_NodeId = ''i-0'',
                        pub_VolumeCapability = Some writerCap \<rparr>"
         and d = ebsDriver and s = sampleProvider and volCap = writerCap
         and sa = sampleProvider and disk = None and sb = sampleProvider]
    ControllerPublishVolume_outcomes
      [where req = "\<lparr> pub_VolumeId = ''vol-1'', pub_NodeId = ''i-0'',
                        pub_VolumeCapability = Some writerCap \<rparr>"
         and d = ebsDriver and s = sampleProvider and volCap = writerCap
         and sa = sampleProvider and sb = sampleProvider and sc = sampleProvider
         and path = "[]"
         and disk = "Some \<lparr> VolumeID = ''vol-1'', CapacityGiB = 5,
                             AvailabilityZone = ''us-west-2a'', FsType = [] \<rparr>"]
    ControllerPublishVolume_outcomes
      [where req = "\<lparr> pub_VolumeId = ''vol-0'', pub_NodeId = ''i-0'',
                        pub_VolumeCapability = Some writerCap \<rparr>"
         and d = throttledDriver and s = sampleProvider and volCap = writerCap
         and sa = sampleProvider and sb = sampleProvider and sc = sampleProvider
         and path = "[]" and e = "ErrOther ''throttled''"
         and disk = "Some \<lparr> VolumeID = ''vol-0'', CapacityGiB = 1,
                             AvailabilityZone = ''us-west-2a'', FsType = [] \<rparr>"]
    ControllerPublishVolume_outcomes
      [where req = "\<lparr> pub_VolumeId = ''vol-0'', pub_NodeId = ''i-0'',
                        pub_VolumeCapability = Some writerCap \<rparr>"
         and d = ebsDriver and s = sampleProvider and volCap = writerCap
         and sa = sampleProvider and sb = sampleProvider
         and sc = "sampleProvider \<lparr> attachments := [(''vol-1'', ''i-1'', ''/dev/xvdba''),
                                                       (''vol-0'', ''i-0'', ''/dev/xvdba'')] \<rparr>"
         and path = "''/dev/xvdba''"
         and disk = "Some \<lparr> VolumeID = ''vol-0'', CapacityGiB = 1,
                             AvailabilityZone = ''us-west-2a'', FsType = [] \<rparr>"]
  by (simp add: provider_defs fixture_defs GetMode_def)

text \<open>
  C9. pickAvailabilityZone returns the value at the topology key of the first preferred
  topology that has the key; when no preferred topology has it, the value of the first
  requisite topology that has it; and the empty string for a nil requirement and when no
  topology has the key.
\<close>

theorem pickAvailabilityZone_prefers_Preferred:
  "pickAvailabilityZone key None = [] \<and>
   (Preferred r = ps @ t # qs \<and> (\<forall>p \<in> set ps. GetSegments p key = None) \<and>
    GetSegments t key = Some zone
      \<longrightarrow> pickAvailabilityZone key (Some r) = zone) \<and>
   ((\<forall>p \<in> set (Preferred r). GetSegments p key = None) \<and>
    Requisite r = ps @ t # qs \<and> (\<forall>p \<in> set ps. GetSegments p key = None) \<and>
    GetSegments t key = Some zone
      \<longrightarrow> pickAvailabilityZone key (Some r) = zone) \<and>
   ((\<forall>p \<in> set (Preferred r). GetSegments p key = None) \<and>
    (\<forall>p \<in> set (Requisite r). GetSegments p key = None)
      \<longrightarrow> pickAvailabilityZone key (Some r) = [])"
proof (intro conjI impI)
  show "pickAvailabilityZone key None = []"
    by (simp add: pickAvailabilityZone_def)
next
  assume "Preferred r = ps @ t # qs \<and> (\<forall>p \<in> set ps. GetSegments p key = None) \<and>
    GetSegments t key = Some zone"
  then have "scanTopologies key (Preferred r) = Some zone"
    by (simp add: scanTopologies_first)
  then show "pickAvailabilityZone key (Some r) = zone"
    by (simp add: pickAvailabilityZone_def)
next
  assume a: "(\<forall>p \<in> set (Preferred r). GetSegments p key = None) \<and>
    Requisite r = ps @ t # qs \<and> (\<forall>p \<in> set ps. GetSegments p key = None) \<and>
    GetSegments t key = Some zone"
  then have "scanTopologies key (Preferred r) = None"
    by (simp add: scanTopologies_None)
  moreover from a have "scanTopologies key (Requisite r) = Some zone"
    by (simp add: scanTopologies_first)
  ultimately show "pickAvailabilityZone key (Some r) = zone"
    by (simp add: pickAvailabilityZone_def)
next
  assume "(\<forall>p \<in> set (Preferred r). GetSegments p key = None) \<and>
    (\<forall>p \<in> set (Requisite r). GetSegments p key = None)"
  then have "scanTopologies key (Preferred r) = None" "scanTopologies key (Requisite r) = None"
    by (simp_all add: scanTopologies_None)
  then show "pickAvailabilityZone key (Some r) = []"
    by (simp add: pickAvailabilityZone_def)
qed

theorem pickAvailabilityZone_prefers_Preferred_witness:
  "pickAvailabilityZone ''zone'' None = [] \<and>
   pickAvailabilityZone ''zone''
     (Some \<lparr> Requisite = [Some \<lparr> Segments = [''zone'' \<mapsto> ''us-west-2a''] \<rparr>],
             Preferred = [None, Some \<lparr> Segments = [''rack'' \<mapsto> ''r1''] \<rparr>,
                          Some \<lparr> Segments = [''zone'' \<mapsto> ''us-west-2b''] \<rparr>,
                          Some \<lparr> Segments = [''zone'' \<mapsto> ''us-west-2c''] \<rparr>] \<rparr>)
     = ''us-west-2b'' \<and>
   pickAvailabilityZone ''zone''
     (Some \<lparr> Requisite = [Some \<lparr> Segments = [''zone'' \<mapsto> ''us-west-2a''] \<rparr>],
             Preferred = [Some \<lparr> Segments = Map.empty \<rparr>] \<rparr>)
     = ''us-west-2a'' \<and>
   pickAvailabilityZone ''zone''
     (Some \<lparr> Requisite = [Some \<lparr> Segments = Map.empty \<rparr>],
             Preferred = [Some \<lparr> Segments = Map.empty \<rparr>] \<rparr>)
     = []"
  using
    pickAvailabilityZone_prefers_Preferred
      [where key = "''zone''"
         and r = "\<lparr> Requisite = [Some \<lparr> Segments = [''zone'' \<mapsto> ''us-west-2a''] \<rparr>],
             Preferred = [None, Some \<lparr> Segments = [''rack'' \<mapsto> ''r1''] \<rparr>,
                          Some \<lparr> Segments = [''zone'' \<mapsto> ''us-west-2b''] \<rparr>,
                          Some \<lparr> Segments = [''zone'' \<mapsto> ''us-west-2c''] \<rparr>] \<rparr>"
         and ps = "[None, Some \<lparr> Segments = [''rack'' \<mapsto> ''r1''] \<rparr>]"
         and t = "Some \<lparr> Segments = [''zone'' \<mapsto> ''us-west-2b''] \<rparr>"
         and qs = "[Some \<lparr> Segments = [''zone'' \<mapsto> ''us-west-2c''] \<rparr>]"
         and zone = "''us-west-2b''"]
    pickAvailabilityZone_prefers_Preferred
      [where key = "''zone''"
         and r = "\<lparr> Requisite = [Some \<lparr> Segments = [''zone'' \<mapsto> ''us-west-2a''] \<rparr>],
             Preferred = [Some \<lparr> Segments = Map.empty \<rparr>] \<rparr>"
         and ps = "[]"
         and t = "Some \<lparr> Segments = [''zone'' \<mapsto> ''us-west-2a''] \<rparr>"
         and qs = "[]"
         and zone = "''us-west-2a''"]
    pickAvailabilityZone_prefers_Preferred
      [where key = "''zone''"
         and r = "\<lparr> Requisite = [Some \<lparr> Segments = Map.empty \<rparr>],
             Preferred = [Some \<lparr> Segments = Map.empty \<rparr>] \<rparr>"]
  by (simp add: GetSegments_def)

text \<open>
  C10. When the lookup by name finds a disk, the volume context of the response holds the
  file system type stored on that disk, whatever the parameters of the request are. When
  the lookup finds none and a disk is created, the volume context holds the
  \<^verbatim>\<open>fsType\<close> parameter of the request.
\<close>

theorem CreateVolume_existing_disk_keeps_fsType:
  "(argumentsAccepted d req \<and>
    GetDiskByName (cloud d) (Name req) (volSizeBytes req) s = ((Some disk, e), s') \<and>
    (e = None \<or> e = Some ErrNotFound) \<longrightarrow>
      CreateVolume d (req \<lparr> Parameters := params \<rparr>) s
        = (Inr (newCreateVolumeResponse (topologyKey d) disk), s') \<and>
      VolumeContext (newCreateVolumeResponse (topologyKey d) disk) = [''fsType'' \<mapsto> FsType disk]) \<and>
   (argumentsAccepted d req \<and>
    GetDiskByName (cloud d) (Name req) (volSizeBytes req) s = ((None, e), s') \<and>
    (e = None \<or> e = Some ErrNotFound) \<and>
    CreateVolume d req s = (Inr v, s'') \<longrightarrow>
      VolumeContext v = [''fsType'' \<mapsto> index_map (Parameters req) ''fsType''])"
proof (intro conjI impI)
  assume a: "argumentsAccepted d req \<and>
    GetDiskByName (cloud d) (Name req) (volSizeBytes req) s = ((Some disk, e), s') \<and>
    (e = None \<or> e = Some ErrNotFound)"
  let ?req = "req \<lparr> Parameters := params \<rparr>"
  from a have "argumentsAccepted d ?req"
    by (simp add: argumentsAccepted_Parameters)
  moreover from a
  have "GetDiskByName (cloud d) (Name ?req) (volSizeBytes ?req) s = ((Some disk, e), s')"
    by (simp add: volSizeBytes_Parameters)
  ultimately show "CreateVolume d ?req s
      = (Inr (newCreateVolumeResponse (topologyKey d) disk), s')"
    using a by (intro CreateVolume_found) auto
  show "VolumeContext (newCreateVolumeResponse (topologyKey d) disk) = [''fsType'' \<mapsto> FsType disk]"
    by (simp add: newCreateVolumeResponse_def)
next
  assume a: "argumentsAccepted d req \<and>
    GetDiskByName (cloud d) (Name req) (volSizeBytes req) s = ((None, e), s') \<and>
    (e = None \<or> e = Some ErrNotFound) \<and>
    CreateVolume d req s = (Inr v, s'')"
  then have "CreateVolume d req s = createNewVolume d req s'"
    by (intro CreateVolume_not_found) auto
  with a show "VolumeContext v = [''fsType'' \<mapsto> index_map (Parameters req) ''fsType'']"
    by (auto dest: createNewVolume_fsType)
qed

theorem CreateVolume_existing_disk_keeps_fsType_witness:
  "CreateVolume ebsDriver
     ((sizedRequest ''test-vol'' 1073741824) \<lparr> Parameters := [''fsType'' \<mapsto> ''xfs''] \<rparr>)
     (afterCreate ''test-vol'' 1)
     = (Inr (newCreateVolumeResponse ''zone'' (firstVolume 1)), afterCreate ''test-vol'' 1) \<and>
   VolumeContext (newCreateVolumeResponse ''zone'' (firstVolume 1)) = [''fsType'' \<mapsto> []] \<and>
   CreateVolume ebsDriver
     ((sizedRequest ''test-vol'' 1073741824) \<lparr> Parameters := [''fsType'' \<mapsto> ''xfs''] \<rparr>)
     emptyProvider
     = (Inr (newCreateVolumeResponse ''zone'' ((firstVolume 1) \<lparr> FsType := ''xfs'' \<rparr>)),
        afterCreate ''test-vol'' 1) \<and>
   VolumeContext (newCreateVolumeResponse ''zone'' ((firstVolume 1) \<lparr> FsType := ''xfs'' \<rparr>))
     = [''fsType'' \<mapsto> ''xfs'']"
proof -
  let ?plain = "sizedRequest ''test-vol'' 1073741824"
  let ?req = "?plain \<lparr> Parameters := [''fsType'' \<mapsto> ''xfs''] \<rparr>"
  have size: "volSizeBytes ?plain = 1073741824" "volSizeBytes ?req = 1073741824"
    by (simp_all add: volSizeBytes_Parameters volSizeBytes_sizedRequest RoundUpBytes_samples)
  have acc: "argumentsAccepted ebsDriver ?plain" "argumentsAccepted ebsDriver ?req"
    by (simp_all add: argumentsAccepted_Parameters sizedRequest_accepted)
  have found: "GetDiskByName (cloud ebsDriver) (Name ?plain) (volSizeBytes ?plain)
      (afterCreate ''test-vol'' 1) = ((Some (firstVolume 1), None), afterCreate ''test-vol'' 1)"
    unfolding size
    by (simp add: ebsDriver_def provider_def provider_GetDiskByName_def named_def
        afterCreate_def emptyProvider_def sizedRequest_def firstVolume_def GiBToBytes_samples)
  have absent: "GetDiskByName (cloud ebsDriver) (Name ?req) (volSizeBytes ?req) emptyProvider
      = ((None, Some ErrNotFound), emptyProvider)"
    by (simp add: ebsDriver_def provider_def provider_GetDiskByName_def named_def
        emptyProvider_def)
  note created = CreateVolume_fsType_on_emptyProvider
  from
    CreateVolume_existing_disk_keeps_fsType
      [where d = ebsDriver and req = ?plain and s = "afterCreate ''test-vol'' 1"
         and disk = "firstVolume 1" and e = None and s' = "afterCreate ''test-vol'' 1"
         and params = "[''fsType'' \<mapsto> ''xfs'']"]
    CreateVolume_existing_disk_keeps_fsType
      [where d = ebsDriver and req = ?req and s = emptyProvider and e = "Some ErrNotFound"
         and s' = emptyProvider and s'' = "afterCreate ''test-vol'' 1"
         and v = "newCreateVolumeResponse ''zone'' ((firstVolume 1) \<lparr> FsType := ''xfs'' \<rparr>)"]
    acc found absent created
  show ?thesis
    by (simp add: ebsDriver_def sizedRequest_def firstVolume_def index_map_def)
qed

end
